theory Spec2Isabelle
  imports Complex_Main "HOL-Library.AList" "HOL-Library.Log_Nat"
begin

section \<open>Conventions of the embedding\<close>

text \<open>
  The backend is TypeScript on a document store. The embedding follows these conventions.
  \<^item> A JavaScript \<open>number\<close> that a request supplies (a score, a weight, a number of
    attempts) is the rational it denotes (\<^typ>\<open>rat\<close>). Arithmetic on scores and weights
    is the arithmetic of IEEE 754 doubles: the exact result of each operation, rounded to the
    nearest double with ties to even (\<open>toDouble\<close> below). Infinities and \<open>NaN\<close> have no
    representation, so a result beyond the largest double is outside the model. The numbers
    the server itself counts (attempt numbers, page numbers, totals of a listing) and
    millisecond time values are integers; they stay below \<open>2^53\<close>, where sums, differences
    and products of whole numbers are exact in doubles. Where the code divides two of them
    it rounds the quotient up at once (\<open>Math.ceil\<close>); the quotient is taken exactly.
  \<^item> A string union such as \<open>'draft' | 'finalized'\<close> stays a \<^typ>\<open>string\<close>, since nothing
    at run time restricts a request body to the declared union.
  \<^item> An optional field is an \<^typ>\<open>'a option\<close>; \<open>None\<close> is \<open>undefined\<close>.
  \<^item> A date string is represented by the time value \<open>new Date(s).getTime()\<close> gives, in
    milliseconds; \<open>None\<close> stands for \<open>NaN\<close>, the time value of a string that does not parse.
  \<^item> The clock (\<open>new Date()\<close>, \<open>formatDate()\<close>), the time zone of the host and the
    identifier \<open>generateId()\<close> returns are read from an environment record, so that a handler
    is a function of its inputs. The time zone gives the offset of local time from UTC at
    each instant, so it may change during the year (daylight saving). A time stamp the
    server writes is the time value itself. \<open>sanitizeString\<close>, which trims a string and
    strips its tags, is a parameter in the same record: no property below depends on it. So
    is the text a template literal prints for a number that is not a whole number below
    \<open>2^53\<close> (\<open>Number.prototype.toString\<close>).
\<close>

type_synonym DateString = "int option"

text \<open>
  The time zone of the host, as \<open>Date\<close> uses it: \<open>tz_ofUtc t\<close> is the offset of local time
  from UTC, in milliseconds, at the time value \<open>t\<close> (the local time value of \<open>t\<close> is
  \<open>t + tz_ofUtc t\<close>), and \<open>tz_ofLocal l\<close> is the offset by which the host turns the local
  time value \<open>l\<close> back into a time value (\<open>l - tz_ofLocal l\<close>). The two agree except
  around a change of the clocks, where a local time occurs twice or not at all.
\<close>

record TimeZone =
  tz_ofUtc :: "int \<Rightarrow> int"
  tz_ofLocal :: "int \<Rightarrow> int"

record Env =
  e_now :: int
  e_tz :: TimeZone
  e_newId :: string
  e_sanitizeString :: "string \<Rightarrow> string"
  e_toString :: "rat \<Rightarrow> string"

text \<open>\<open>x && ...\<close> and \<open>!x\<close> on an optional string: the empty string is falsy.\<close>

definition truthy :: "string option \<Rightarrow> bool" where
  "truthy s = (case s of None \<Rightarrow> False | Some v \<Rightarrow> v \<noteq> [])"

section \<open>IEEE 754 doubles\<close>

text \<open>
  \<open>ilog2 x\<close> is the binary exponent of a positive rational: \<open>2^e \<le> x < 2^(e + 1)\<close>.
\<close>

definition ilog2 :: "rat \<Rightarrow> int" where
  "ilog2 x = (if 1 \<le> x then bitlen \<lfloor>x\<rfloor> - 1 else - bitlen (\<lceil>1 / x\<rceil> - 1))"

text \<open>The nearest integer, a tie going to the even one.\<close>

definition roundTiesToEven :: "rat \<Rightarrow> int" where
  "roundTiesToEven y =
     (let f = \<lfloor>y\<rfloor>; r = y - of_int f
      in if r < 1 / 2 then f else if 1 / 2 < r then f + 1 else if even f then f else f + 1)"

text \<open>
  The double nearest to a rational. A double has a significand of 53 bits, so between
  \<open>2^e\<close> and \<open>2^(e + 1)\<close> the doubles are the multiples of \<open>2^(e - 52)\<close>; below \<open>2^(-1022)\<close>
  they are the multiples of \<open>2^(-1074)\<close>. Each of \<open>+\<close>, \<open>-\<close>, \<open>*\<close> and \<open>/\<close> on numbers in
  the source is the exact operation followed by \<open>toDouble\<close>.
\<close>

definition toDouble :: "rat \<Rightarrow> rat" where
  "toDouble x =
     (if x = 0 then 0
      else (let q = max (ilog2 \<bar>x\<bar> - 52) (- 1074)
            in of_int (roundTiesToEven (x / 2 powi q)) * 2 powi q))"

text \<open>A number without a fractional part.\<close>

definition wholeNumber :: "rat \<Rightarrow> bool" where
  "wholeNumber x = (of_int \<lfloor>x\<rfloor> = x)"

section \<open>utils/helpers.ts\<close>

definition msPerDay :: int where
  "msPerDay = 1000 * 60 * 60 * 24"

text \<open>The local calendar day of a time value, counted from the epoch.\<close>

definition localDay :: "TimeZone \<Rightarrow> int \<Rightarrow> int" where
  "localDay tz t = (t + tz_ofUtc tz t) div msPerDay"

text \<open>\<open>d.setHours(0, 0, 0, 0)\<close> and \<open>d.setHours(23, 59, 59, 999)\<close> on a time value \<open>t\<close>:
  the time of day is replaced in the local time value, which is then turned back into a
  time value.\<close>

definition setHoursStart :: "TimeZone \<Rightarrow> int \<Rightarrow> int" where
  "setHoursStart tz t =
     (let localTime = localDay tz t * msPerDay
      in localTime - tz_ofLocal tz localTime)"

definition setHoursEnd :: "TimeZone \<Rightarrow> int \<Rightarrow> int" where
  "setHoursEnd tz t =
     (let localTime = localDay tz t * msPerDay + (msPerDay - 1)
      in localTime - tz_ofLocal tz localTime)"

definition Math_ceil :: "rat \<Rightarrow> int" where
  "Math_ceil x = \<lceil>x\<rceil>"

text \<open>\<open>Math.round\<close> gives the nearest integer, a tie going towards positive infinity; the
  result is exact.\<close>

definition Math_round :: "rat \<Rightarrow> rat" where
  "Math_round x = of_int \<lfloor>x + 1 / 2\<rfloor>"

text \<open>A comparison with \<open>NaN\<close> is false, so an unparseable due date falls through to \<open>'low'\<close>.\<close>

definition calculatePriorityFromDeadline :: "Env \<Rightarrow> DateString \<Rightarrow> string" where
  "calculatePriorityFromDeadline env dueDate =
     (case dueDate of
        None \<Rightarrow> ''low''
      | Some d \<Rightarrow>
          (let now = setHoursStart (e_tz env) (e_now env);
               due = setHoursEnd (e_tz env) d;
               diffTime = due - now;
               diffDays = Math_ceil (of_int diffTime / of_int msPerDay)
           in if diffDays \<le> 2 then ''high''
              else if diffDays \<le> 5 then ''medium''
              else ''low''))"

definition isOverdue :: "Env \<Rightarrow> DateString \<Rightarrow> bool" where
  "isOverdue env dueDate =
     (case dueDate of
        None \<Rightarrow> False
      | Some d \<Rightarrow> e_now env > setHoursEnd (e_tz env) d)"

definition calculateLetterGrade :: "rat \<Rightarrow> string" where
  "calculateLetterGrade score =
     (if score \<ge> 90 then ''A''
      else if score \<ge> 80 then ''B''
      else if score \<ge> 70 then ''C''
      else if score \<ge> 60 then ''D''
      else ''F'')"

record RubricCriterion =
  rc_id :: string
  rc_name :: string
  rc_weight :: rat
  rc_description :: "string option"
  rc_score :: "rat option"

text \<open>The loop of \<open>calculateTotalFromRubric\<close>, with its two accumulators, in the
  arithmetic of doubles.\<close>

fun rubricLoop :: "RubricCriterion list \<Rightarrow> rat \<Rightarrow> rat \<Rightarrow> rat \<times> rat" where
  "rubricLoop [] totalWeight weightedScore = (totalWeight, weightedScore)"
| "rubricLoop (criterion # rest) totalWeight weightedScore =
     (case rc_score criterion of
        None \<Rightarrow> rubricLoop rest totalWeight weightedScore
      | Some s \<Rightarrow>
          rubricLoop rest (toDouble (totalWeight + rc_weight criterion))
            (toDouble (weightedScore + toDouble (toDouble (s * rc_weight criterion) / 100))))"

definition calculateTotalFromRubric :: "RubricCriterion list \<Rightarrow> rat" where
  "calculateTotalFromRubric rubricScores =
     (case rubricLoop rubricScores 0 0 of
        (totalWeight, weightedScore) \<Rightarrow>
          if totalWeight = 0 then 0
          else Math_round (toDouble (toDouble (weightedScore / totalWeight) * 100)))"

text \<open>The query of a list request, after \<open>parseInt\<close>: \<open>None\<close> is \<open>NaN\<close>, which \<open>parseInt\<close>
  gives for an absent or non-numeric parameter.\<close>

record PaginationQuery =
  q_page :: "int option"
  q_limit :: "int option"

text \<open>\<open>parseInt(v) || d\<close>: \<open>NaN\<close> and \<open>0\<close> are falsy.\<close>

definition orDefault :: "int option \<Rightarrow> int \<Rightarrow> int" where
  "orDefault v d = (case v of None \<Rightarrow> d | Some n \<Rightarrow> if n = 0 then d else n)"

record PaginationParams =
  p_page :: int
  p_limit :: int
  p_offset :: int

definition getPaginationParams :: "PaginationQuery \<Rightarrow> PaginationParams" where
  "getPaginationParams query =
     (let page = max 1 (orDefault (q_page query) 1);
          limit = min 100 (max 1 (orDefault (q_limit query) 20));
          offset = (page - 1) * limit
      in \<lparr>p_page = page, p_limit = limit, p_offset = offset\<rparr>)"

record 'a PaginatedResponse =
  pr_data :: "'a list"
  pr_total :: int
  pr_page :: int
  pr_limit :: int
  pr_totalPages :: int

definition buildPaginatedResponse :: "'a list \<Rightarrow> int \<Rightarrow> int \<Rightarrow> int \<Rightarrow> 'a PaginatedResponse" where
  "buildPaginatedResponse data totalCount page limit =
     \<lparr>pr_data = data, pr_total = totalCount, pr_page = page, pr_limit = limit,
      pr_totalPages = Math_ceil (of_int totalCount / of_int limit)\<rparr>"

text \<open>\<open>Array.prototype.slice(start, end)\<close>: a negative index counts from the end, and both
  indices are clamped to the array.\<close>

definition slice :: "'a list \<Rightarrow> int \<Rightarrow> int \<Rightarrow> 'a list" where
  "slice xs start end' =
     (let n = int (length xs);
          k = (if start < 0 then max (n + start) 0 else min start n);
          final = (if end' < 0 then max (n + end') 0 else min end' n)
      in take (nat (final - k)) (drop (nat k) xs))"

text \<open>The tail every list handler shares (for one, routes/assignments.ts, lines 98 to 105):
  count the sorted array, slice the page out of it and wrap it.\<close>

definition paginate :: "'a list \<Rightarrow> PaginationQuery \<Rightarrow> 'a PaginatedResponse" where
  "paginate items query =
     (let params = getPaginationParams query;
          page = p_page params;
          limit = p_limit params;
          totalCount = int (length items);
          paginated = slice items ((page - 1) * limit) (page * limit)
      in buildPaginatedResponse paginated totalCount page limit)"

section \<open>Replies and the document store\<close>

text \<open>
  \<open>Success code data message\<close> is \<open>res.status(code).json({success: true, data, message})\<close>
  (\<open>res.json\<close> alone answers 200) and \<open>Failure code error\<close> is
  \<open>res.status(code).json({success: false, error})\<close>.
\<close>

datatype 'a Reply =
  Success nat "'a option" "string option"
| Failure nat string

fun statusCode :: "'a Reply \<Rightarrow> nat" where
  "statusCode (Success code _ _) = code"
| "statusCode (Failure code _) = code"

text \<open>Template literals print whole numbers in decimal.\<close>

fun string_of_nat :: "nat \<Rightarrow> string" where
  "string_of_nat n =
     (if n < 10 then [char_of (48 + n)]
      else string_of_nat (n div 10) @ [char_of (48 + n mod 10)])"

declare string_of_nat.simps [simp del]

definition string_of_int :: "int \<Rightarrow> string" where
  "string_of_int i =
     (if i < 0 then CHR ''-'' # string_of_nat (nat (- i)) else string_of_nat (nat i))"

text \<open>The text of a number in a template literal: a whole number below \<open>2^53\<close> is printed
  digit by digit; the text of any other number is the host's.\<close>

definition numberToString :: "Env \<Rightarrow> rat \<Rightarrow> string" where
  "numberToString env x =
     (if wholeNumber x \<and> \<bar>x\<bar> < 2 ^ 53 then string_of_int \<lfloor>x\<rfloor> else e_toString env x)"

definition valueOf :: "string option \<Rightarrow> string" where
  "valueOf s = (case s of None \<Rightarrow> [] | Some v \<Rightarrow> v)"

text \<open>The conditional spread \<open>...(x && { field: x })\<close>: the field exists only for a truthy
  \<open>x\<close>.\<close>

definition spreadIf :: "string option \<Rightarrow> string option" where
  "spreadIf s = (if truthy s then s else None)"

record AuthenticatedUser =
  u_uid :: string
  u_email :: string
  u_role :: string
  u_name :: string

record Assignment =
  a_id :: string
  a_title :: string
  a_description :: string
  a_dueDate :: DateString
  a_createdAt :: int
  a_updatedAt :: "int option"
  a_teacherId :: string
  a_teacherName :: string
  a_status :: string
  a_priority :: string
  a_difficulty :: string
  a_attachmentUrl :: "string option"
  a_allowLateSubmission :: bool
  a_maxAttempts :: rat
  a_rubric :: "RubricCriterion list option"

record SubmissionAttempt =
  at_attemptNumber :: int
  at_submittedAt :: int
  at_fileUrl :: "string option"
  at_textContent :: "string option"

record Submission =
  s_id :: string
  s_assignmentId :: string
  s_studentId :: string
  s_studentName :: string
  s_submittedAt :: int
  s_fileUrl :: "string option"
  s_textContent :: "string option"
  s_status :: string
  s_attemptHistory :: "SubmissionAttempt list"
  s_currentAttempt :: int
  s_integrityConfirmed :: bool
  s_feedbackId :: "string option"
  s_gradeId :: "string option"

record Grade =
  g_id :: string
  g_submissionId :: string
  g_teacherId :: string
  g_teacherName :: string
  g_numericScore :: "rat option"
  g_letterGrade :: "string option"
  g_rubricScores :: "RubricCriterion list option"
  g_totalScore :: "rat option"
  g_comments :: "string option"
  g_status :: string
  g_gradedAt :: "int option"
  g_publishedAt :: "int option"

record GradeReviewRequest =
  rr_id :: string
  rr_gradeId :: string
  rr_studentId :: string
  rr_studentName :: string
  rr_assignmentId :: string
  rr_assignmentTitle :: string
  rr_message :: string
  rr_status :: string
  rr_createdAt :: int
  rr_respondedAt :: "int option"
  rr_responseMessage :: "string option"
  rr_teacherId :: string

text \<open>
  A collection is the list of its documents, each under its identifier, in the order the
  store returns them. \<open>doc(id).get()\<close> is \<^const>\<open>map_of\<close>, \<open>doc(id).set(d)\<close> is
  \<^const>\<open>AList.update\<close>, and \<open>doc(id).update(fields)\<close>, which a handler only calls on a
  document it has just read, is \<^const>\<open>AList.map_entry\<close> with the function that overwrites
  the given fields. The store does not fail in the model, so the \<open>catch\<close> block of a
  handler, which answers 500, is never entered and is left out.
\<close>

record Db =
  db_assignments :: "(string \<times> Assignment) list"
  db_submissions :: "(string \<times> Submission) list"
  db_grades :: "(string \<times> Grade) list"
  db_gradeReviewRequests :: "(string \<times> GradeReviewRequest) list"

text \<open>\<open>requireRole(role)\<close> of middleware/auth.ts, after \<open>authenticate\<close> has attached the
  user.\<close>

definition requireRoleFails :: "string \<Rightarrow> AuthenticatedUser \<Rightarrow> bool" where
  "requireRoleFails r user = (u_role user \<notin> set [r])"

definition accessDenied :: "string \<Rightarrow> 'a Reply" where
  "accessDenied r = Failure 403 (''Access denied. Required role: '' @ r)"

text \<open>The loop that cuts a list of identifiers into the groups of ten an \<open>in\<close> filter
  accepts.\<close>

function chunkLoop :: "'a list \<Rightarrow> nat \<Rightarrow> 'a list list" where
  "chunkLoop ids i =
     (if i < length ids then slice ids (int i) (int i + 10) # chunkLoop ids (i + 10) else [])"
  by pat_completeness auto
termination
  by (relation "measure (\<lambda>(ids, i). length ids - i)") auto

declare chunkLoop.simps [simp del]

section \<open>routes/assignments.ts\<close>

record CreateAssignmentDTO =
  ca_title :: "string option"
  ca_description :: "string option"
  ca_dueDate :: "DateString option"
  ca_difficulty :: "string option"
  ca_status :: "string option"
  ca_allowLateSubmission :: "bool option"
  ca_maxAttempts :: "rat option"
  ca_rubric :: "RubricCriterion list option"
  ca_attachmentUrl :: "string option"

text \<open>The document POST /api/assignments builds: \<open>newAssignment\<close>. The request has no
  \<open>priority\<close> member; the priority is computed from the due date.\<close>

definition newAssignmentDoc ::
  "Env \<Rightarrow> AuthenticatedUser \<Rightarrow> CreateAssignmentDTO \<Rightarrow> DateString \<Rightarrow> Assignment" where
  "newAssignmentDoc env user data dueDate =
     (let now = e_now env;
          id = e_newId env;
          priority = calculatePriorityFromDeadline env dueDate;
          rubric = map_option
            (\<lambda>r. map (\<lambda>(criterion, index).
                    criterion\<lparr>rc_id := ''rubric-'' @ id @ ''-'' @ string_of_nat index\<rparr>)
                  (zip r [0..<length r]))
            (ca_rubric data)
      in \<lparr>a_id = id,
          a_title = e_sanitizeString env (valueOf (ca_title data)),
          a_description = e_sanitizeString env (valueOf (ca_description data)),
          a_dueDate = dueDate,
          a_createdAt = now,
          a_updatedAt = None,
          a_teacherId = u_uid user,
          a_teacherName = u_name user,
          a_status = (if truthy (ca_status data) then valueOf (ca_status data)
                      else ''published''),
          a_priority = priority,
          a_difficulty = valueOf (ca_difficulty data),
          a_attachmentUrl = spreadIf (ca_attachmentUrl data),
          a_allowLateSubmission =
            (case ca_allowLateSubmission data of None \<Rightarrow> True | Some b \<Rightarrow> b),
          a_maxAttempts = (case ca_maxAttempts data of None \<Rightarrow> 3 | Some n \<Rightarrow> n),
          a_rubric = rubric\<rparr>)"

text \<open>POST /api/assignments. An absent or empty \<open>dueDate\<close> is \<open>None\<close> in the request.\<close>

definition createAssignment ::
  "Env \<Rightarrow> AuthenticatedUser \<Rightarrow> CreateAssignmentDTO \<Rightarrow> Db \<Rightarrow> Assignment Reply \<times> Db" where
  "createAssignment env user data db =
     (if requireRoleFails ''teacher'' user then (accessDenied ''teacher'', db)
      else
        (case ca_dueDate data of
           None \<Rightarrow>
             (Failure 400 ''Missing required fields: title, description, dueDate, difficulty'', db)
         | Some dueDate \<Rightarrow>
             if \<not> truthy (ca_title data) \<or> \<not> truthy (ca_description data)
                \<or> \<not> truthy (ca_difficulty data)
             then (Failure 400 ''Missing required fields: title, description, dueDate, difficulty'', db)
             else
               (let newAssignment = newAssignmentDoc env user data dueDate
                in (Success 201 (Some newAssignment) (Some ''Assignment created successfully''),
                    db\<lparr>db_assignments :=
                         AList.update (e_newId env) newAssignment (db_assignments db)\<rparr>))))"

record UpdateAssignmentDTO =
  ua_title :: "string option"
  ua_description :: "string option"
  ua_dueDate :: "DateString option"
  ua_status :: "string option"
  ua_priority :: "string option"
  ua_difficulty :: "string option"
  ua_allowLateSubmission :: "bool option"
  ua_maxAttempts :: "rat option"
  ua_rubric :: "RubricCriterion list option"
  ua_attachmentUrl :: "string option"

text \<open>The fields PUT /api/assignments/:id writes into the stored document. The \<open>priority\<close>
  of the request is never read.\<close>

definition assignmentUpdateData :: "Env \<Rightarrow> UpdateAssignmentDTO \<Rightarrow> Assignment \<Rightarrow> Assignment" where
  "assignmentUpdateData env updates doc =
     doc\<lparr>a_updatedAt := Some (e_now env),
         a_title := (if truthy (ua_title updates)
                     then e_sanitizeString env (valueOf (ua_title updates)) else a_title doc),
         a_description := (if truthy (ua_description updates)
                     then e_sanitizeString env (valueOf (ua_description updates))
                     else a_description doc),
         a_dueDate := (case ua_dueDate updates of None \<Rightarrow> a_dueDate doc | Some d \<Rightarrow> d),
         a_priority := (case ua_dueDate updates of
                          None \<Rightarrow> a_priority doc
                        | Some d \<Rightarrow> calculatePriorityFromDeadline env d),
         a_status := (if truthy (ua_status updates) then valueOf (ua_status updates)
                      else a_status doc),
         a_difficulty := (if truthy (ua_difficulty updates) then valueOf (ua_difficulty updates)
                          else a_difficulty doc),
         a_allowLateSubmission := (case ua_allowLateSubmission updates of
                                     None \<Rightarrow> a_allowLateSubmission doc | Some b \<Rightarrow> b),
         a_maxAttempts := (case ua_maxAttempts updates of
                             None \<Rightarrow> a_maxAttempts doc | Some n \<Rightarrow> n),
         a_rubric := (case ua_rubric updates of None \<Rightarrow> a_rubric doc | Some r \<Rightarrow> Some r),
         a_attachmentUrl := (case ua_attachmentUrl updates of
                               None \<Rightarrow> a_attachmentUrl doc | Some u \<Rightarrow> Some u)\<rparr>"

text \<open>PUT /api/assignments/:id.\<close>

definition updateAssignment ::
  "Env \<Rightarrow> AuthenticatedUser \<Rightarrow> string \<Rightarrow> UpdateAssignmentDTO \<Rightarrow> Db \<Rightarrow> Assignment Reply \<times> Db" where
  "updateAssignment env user docId updates db =
     (if requireRoleFails ''teacher'' user then (accessDenied ''teacher'', db)
      else
        (case map_of (db_assignments db) docId of
           None \<Rightarrow> (Failure 404 ''Assignment not found'', db)
         | Some assignment \<Rightarrow>
             if a_teacherId assignment \<noteq> u_uid user
             then (Failure 403 ''You can only edit your own assignments'', db)
             else
               (let db' = db\<lparr>db_assignments :=
                            AList.map_entry docId (assignmentUpdateData env updates)
                              (db_assignments db)\<rparr>;
                    updatedDoc = map_of (db_assignments db') docId
                in (Success 200 (map_option (\<lambda>d. d\<lparr>a_id := docId\<rparr>) updatedDoc)
                      (Some ''Assignment updated successfully''), db'))))"

section \<open>routes/submissions.ts\<close>

record CreateSubmissionDTO =
  cs_assignmentId :: "string option"
  cs_textContent :: "string option"
  cs_fileUrl :: "string option"
  cs_integrityConfirmed :: bool

text \<open>The query \<open>where assignmentId == a, where studentId == u, limit 1\<close>.\<close>

definition existingSubmission :: "string \<Rightarrow> string \<Rightarrow> Db \<Rightarrow> (string \<times> Submission) option" where
  "existingSubmission assignmentId uid db =
     find (\<lambda>(docId, s). s_assignmentId s = assignmentId \<and> s_studentId s = uid)
       (db_submissions db)"

text \<open>The fields a re-submission writes into the stored document: \<open>updatedSubmission\<close>.\<close>

definition submissionUpdateData ::
  "int \<Rightarrow> bool \<Rightarrow> CreateSubmissionDTO \<Rightarrow> Submission \<Rightarrow> Submission \<Rightarrow> Submission" where
  "submissionUpdateData now assignmentOverdue data existing doc =
     (let newAttempt =
            \<lparr>at_attemptNumber = s_currentAttempt existing + 1,
             at_submittedAt = now,
             at_fileUrl = spreadIf (cs_fileUrl data),
             at_textContent = spreadIf (cs_textContent data)\<rparr>
      in doc\<lparr>s_submittedAt := now,
             s_status := (if assignmentOverdue then ''late'' else ''submitted''),
             s_attemptHistory := s_attemptHistory existing @ [newAttempt],
             s_currentAttempt := s_currentAttempt existing + 1,
             s_integrityConfirmed := cs_integrityConfirmed data,
             s_textContent := (if truthy (cs_textContent data) then cs_textContent data
                               else s_textContent doc),
             s_fileUrl := (if truthy (cs_fileUrl data) then cs_fileUrl data
                           else s_fileUrl doc)\<rparr>)"

text \<open>The document a first submission creates: \<open>newSubmission\<close>.\<close>

definition newSubmissionDoc ::
  "Env \<Rightarrow> AuthenticatedUser \<Rightarrow> CreateSubmissionDTO \<Rightarrow> bool \<Rightarrow> Submission" where
  "newSubmissionDoc env user data assignmentOverdue =
     (let now = e_now env;
          id = e_newId env
      in \<lparr>s_id = id,
          s_assignmentId = valueOf (cs_assignmentId data),
          s_studentId = u_uid user,
          s_studentName = u_name user,
          s_submittedAt = now,
          s_fileUrl = spreadIf (cs_fileUrl data),
          s_textContent = spreadIf (cs_textContent data),
          s_status = (if assignmentOverdue then ''late'' else ''submitted''),
          s_attemptHistory =
            [\<lparr>at_attemptNumber = 1,
              at_submittedAt = now,
              at_fileUrl = spreadIf (cs_fileUrl data),
              at_textContent = spreadIf (cs_textContent data)\<rparr>],
          s_currentAttempt = 1,
          s_integrityConfirmed = cs_integrityConfirmed data,
          s_feedbackId = None,
          s_gradeId = None\<rparr>)"

text \<open>POST /api/submissions.\<close>

definition createSubmission ::
  "Env \<Rightarrow> AuthenticatedUser \<Rightarrow> CreateSubmissionDTO \<Rightarrow> Db \<Rightarrow> Submission Reply \<times> Db" where
  "createSubmission env user data db =
     (if requireRoleFails ''student'' user then (accessDenied ''student'', db)
      else if \<not> truthy (cs_assignmentId data)
      then (Failure 400 ''Assignment ID is required'', db)
      else if \<not> truthy (cs_textContent data) \<and> \<not> truthy (cs_fileUrl data)
      then (Failure 400 ''Either text content or file is required'', db)
      else if \<not> cs_integrityConfirmed data
      then (Failure 400 ''Academic integrity must be confirmed'', db)
      else
        (case map_of (db_assignments db) (valueOf (cs_assignmentId data)) of
           None \<Rightarrow> (Failure 404 ''Assignment not found'', db)
         | Some assignment \<Rightarrow>
             if a_status assignment \<noteq> ''published''
             then (Failure 400 ''Cannot submit to this assignment'', db)
             else
               (let now = e_now env;
                    assignmentOverdue = isOverdue env (a_dueDate assignment)
                in if assignmentOverdue \<and> \<not> a_allowLateSubmission assignment
                   then (Failure 400 ''Late submissions are not allowed for this assignment'', db)
                   else
                     (case existingSubmission (valueOf (cs_assignmentId data)) (u_uid user) db of
                        Some (existingId, existing) \<Rightarrow>
                          if of_int (s_currentAttempt existing) \<ge> a_maxAttempts assignment
                          then (Failure 400
                                  (''Maximum attempts (''
                                     @ numberToString env (a_maxAttempts assignment)
                                     @ '') reached''), db)
                          else
                            (let db' = db\<lparr>db_submissions :=
                                         AList.map_entry existingId
                                           (submissionUpdateData now assignmentOverdue data existing)
                                           (db_submissions db)\<rparr>;
                                 updatedDoc = map_of (db_submissions db') existingId
                             in (Success 200 (map_option (\<lambda>d. d\<lparr>s_id := existingId\<rparr>) updatedDoc)
                                   (Some ''Submission updated successfully''), db'))
                      | None \<Rightarrow>
                          (let newSubmission = newSubmissionDoc env user data assignmentOverdue
                           in (Success 201 (Some newSubmission)
                                 (Some ''Submission created successfully''),
                               db\<lparr>db_submissions :=
                                    AList.update (e_newId env) newSubmission
                                      (db_submissions db)\<rparr>))))))"

section \<open>routes/grading.ts\<close>

text \<open>The \<open>score\<close> member of a criterion in a request body: absent, a number, or some other
  JSON value (\<open>null\<close>, a string).\<close>

datatype JsonScore = ScoreAbsent | ScoreNumber rat | ScoreOther

record RubricScoreInput =
  ri_id :: string
  ri_name :: string
  ri_weight :: rat
  ri_description :: "string option"
  ri_score :: JsonScore

definition sanitizeRubricScores :: "RubricScoreInput list \<Rightarrow> RubricCriterion list" where
  "sanitizeRubricScores rubricScores =
     map (\<lambda>criterion.
            \<lparr>rc_id = ri_id criterion,
             rc_name = ri_name criterion,
             rc_weight = ri_weight criterion,
             rc_description = ri_description criterion,
             rc_score = (case ri_score criterion of ScoreNumber n \<Rightarrow> Some n | _ \<Rightarrow> None)\<rparr>)
       rubricScores"

text \<open>The key of the sort by graded date: \<open>new Date(g.gradedAt || 0).getTime()\<close>.\<close>

definition gradedAtTime :: "Grade \<Rightarrow> int" where
  "gradedAtTime g = (case g_gradedAt g of None \<Rightarrow> 0 | Some t \<Rightarrow> t)"

text \<open>One \<open>in\<close> query on the grades collection per group of submission identifiers, with an
  optional filter on the status; the documents come back with their identifier.\<close>

definition gradesOfChunks :: "string list list \<Rightarrow> string option \<Rightarrow> Db \<Rightarrow> Grade list" where
  "gradesOfChunks chunks status db =
     concat (map (\<lambda>chunk.
                    map (\<lambda>(docId, g). g\<lparr>g_id := docId\<rparr>)
                      (filter (\<lambda>(docId, g). g_submissionId g \<in> set chunk
                                 \<and> (case status of None \<Rightarrow> True | Some st \<Rightarrow> g_status g = st))
                         (db_grades db)))
               chunks)"

text \<open>GET /api/grading/grades. \<open>status\<close> is the query parameter; an empty one is falsy.\<close>

definition getGrades ::
  "AuthenticatedUser \<Rightarrow> PaginationQuery \<Rightarrow> string option \<Rightarrow> Db \<Rightarrow> Grade PaginatedResponse Reply" where
  "getGrades user query status db =
     (let grades =
            (if u_role user = ''student''
             then
               (let submissionIds =
                      map fst (filter (\<lambda>(docId, s). s_studentId s = u_uid user) (db_submissions db))
                in if length submissionIds > 0
                   then gradesOfChunks (chunkLoop submissionIds 0) (Some ''finalized'') db
                   else [])
             else
               (let assignmentIds =
                      map fst (filter (\<lambda>(docId, a). a_teacherId a = u_uid user) (db_assignments db))
                in if length assignmentIds > 0
                   then
                     (let submissionIds =
                            concat (map (\<lambda>chunk.
                                           map fst (filter (\<lambda>(docId, s). s_assignmentId s \<in> set chunk)
                                                      (db_submissions db)))
                                      (chunkLoop assignmentIds 0))
                      in if length submissionIds > 0
                         then gradesOfChunks (chunkLoop submissionIds 0) (spreadIf status) db
                         else [])
                   else []));
          sortedGrades = sort_key (\<lambda>g. - gradedAtTime g) grades
      in Success 200 (Some (paginate sortedGrades query)) None)"

text \<open>GET /api/grading/grades/:id.\<close>

definition getGrade :: "AuthenticatedUser \<Rightarrow> string \<Rightarrow> Db \<Rightarrow> Grade Reply" where
  "getGrade user docId db =
     (case map_of (db_grades db) docId of
        None \<Rightarrow> Failure 404 ''Grade not found''
      | Some gradeDoc \<Rightarrow>
          (let grade = gradeDoc\<lparr>g_id := docId\<rparr>
           in case map_of (db_submissions db) (g_submissionId grade) of
                None \<Rightarrow> Failure 404 ''Associated submission not found''
              | Some submission \<Rightarrow>
                  if u_role user = ''student''
                     \<and> (s_studentId submission \<noteq> u_uid user \<or> g_status grade \<noteq> ''finalized'')
                  then Failure 403 ''Access denied''
                  else Success 200 (Some grade) None))"

record CreateGradeDTO =
  cg_submissionId :: "string option"
  cg_numericScore :: "rat option"
  cg_letterGrade :: "string option"
  cg_rubricScores :: "RubricScoreInput list option"
  cg_totalScore :: "rat option"
  cg_comments :: "string option"
  cg_status :: "string option"

text \<open>Lines 252 to 263 of POST /api/grading/grades: the total, the letter and the rubric
  the new grade gets. A rubric counts as supplied when the list is not empty.\<close>

definition deriveGradeFields ::
  "CreateGradeDTO \<Rightarrow> rat option \<times> string option \<times> RubricCriterion list option" where
  "deriveGradeFields data =
     (let totalScore = cg_totalScore data;
          letterGrade = cg_letterGrade data;
          fromNumeric =
            (case cg_numericScore data of
               None \<Rightarrow> letterGrade
             | Some n \<Rightarrow> if \<not> truthy letterGrade then Some (calculateLetterGrade n)
                         else letterGrade)
      in case cg_rubricScores data of
           Some (c # cs) \<Rightarrow>
             (let sanitizedRubricScores = sanitizeRubricScores (c # cs);
                  rubricTotal = calculateTotalFromRubric sanitizedRubricScores
              in (Some rubricTotal,
                  (if truthy letterGrade then letterGrade
                   else Some (calculateLetterGrade rubricTotal)),
                  Some sanitizedRubricScores))
         | Some [] \<Rightarrow> (totalScore, fromNumeric, Some [])
         | None \<Rightarrow> (totalScore, fromNumeric, None))"

text \<open>The document POST /api/grading/grades builds: \<open>newGrade\<close>.\<close>

definition newGradeDoc :: "Env \<Rightarrow> AuthenticatedUser \<Rightarrow> CreateGradeDTO \<Rightarrow> Grade" where
  "newGradeDoc env user data =
     (case deriveGradeFields data of
        (totalScore, letterGrade, rubricScores) \<Rightarrow>
          (let now = e_now env;
               id = e_newId env
           in \<lparr>g_id = id,
               g_submissionId = valueOf (cg_submissionId data),
               g_teacherId = u_uid user,
               g_teacherName = u_name user,
               g_numericScore = cg_numericScore data,
               g_letterGrade = spreadIf letterGrade,
               g_rubricScores = rubricScores,
               g_totalScore = totalScore,
               g_comments = spreadIf (cg_comments data),
               g_status = (if truthy (cg_status data) then valueOf (cg_status data)
                           else ''draft''),
               g_gradedAt = Some now,
               g_publishedAt = (if cg_status data = Some ''finalized'' then Some now
                                else None)\<rparr>))"

text \<open>POST /api/grading/grades.\<close>

definition createGrade ::
  "Env \<Rightarrow> AuthenticatedUser \<Rightarrow> CreateGradeDTO \<Rightarrow> Db \<Rightarrow> Grade Reply \<times> Db" where
  "createGrade env user data db =
     (if requireRoleFails ''teacher'' user then (accessDenied ''teacher'', db)
      else if \<not> truthy (cg_submissionId data)
      then (Failure 400 ''Submission ID is required'', db)
      else
        (case map_of (db_submissions db) (valueOf (cg_submissionId data)) of
           None \<Rightarrow> (Failure 404 ''Submission not found'', db)
         | Some submission \<Rightarrow>
             if (case map_of (db_assignments db) (s_assignmentId submission) of
                   None \<Rightarrow> True
                 | Some assignment \<Rightarrow> a_teacherId assignment \<noteq> u_uid user)
             then (Failure 403 ''You can only grade submissions for your own assignments'', db)
             else if truthy (s_gradeId submission)
             then (Failure 409 ''Grade already exists. Use PUT to update.'', db)
             else
               (let newGrade = newGradeDoc env user data
                in (Success 201 (Some newGrade) (Some ''Grade created successfully''),
                    db\<lparr>db_grades := AList.update (e_newId env) newGrade (db_grades db),
                       db_submissions :=
                         AList.map_entry (valueOf (cg_submissionId data))
                           (\<lambda>s. s\<lparr>s_gradeId := Some (e_newId env)\<rparr>) (db_submissions db)\<rparr>))))"





text \<open>POST /api/grading/grades/:id/publish.\<close>

definition publishGrade :: "Env \<Rightarrow> AuthenticatedUser \<Rightarrow> string \<Rightarrow> Db \<Rightarrow> unit Reply \<times> Db" where
  "publishGrade env user docId db =
     (if requireRoleFails ''teacher'' user then (accessDenied ''teacher'', db)
      else
        (case map_of (db_grades db) docId of
           None \<Rightarrow> (Failure 404 ''Grade not found'', db)
         | Some grade \<Rightarrow>
             if g_teacherId grade \<noteq> u_uid user
             then (Failure 403 ''You can only publish your own grades'', db)
             else if g_status grade = ''finalized''
             then (Failure 400 ''Grade is already published'', db)
             else
               (Success 200 None (Some ''Grade published successfully''),
                db\<lparr>db_grades :=
                     AList.map_entry docId
                       (\<lambda>g. g\<lparr>g_status := ''finalized'', g_publishedAt := Some (e_now env)\<rparr>)
                       (db_grades db)\<rparr>)))"

record RespondToReviewRequestDTO =
  rd_status :: "string option"
  rd_message :: "string option"

text \<open>PUT /api/grading/review-requests/:id/respond.\<close>

definition respondToReviewRequest ::
  "Env \<Rightarrow> AuthenticatedUser \<Rightarrow> string \<Rightarrow> RespondToReviewRequestDTO \<Rightarrow> Db \<Rightarrow> unit Reply \<times> Db" where
  "respondToReviewRequest env user docId data db =
     (if requireRoleFails ''teacher'' user then (accessDenied ''teacher'', db)
      else if \<not> truthy (rd_status data)
              \<or> valueOf (rd_status data) \<notin> set [''accepted'', ''declined'']
      then (Failure 400 ''Valid status (accepted/declined) is required'', db)
      else
        (case map_of (db_gradeReviewRequests db) docId of
           None \<Rightarrow> (Failure 404 ''Review request not found'', db)
         | Some request \<Rightarrow>
             if rr_teacherId request \<noteq> u_uid user
             then (Failure 403 ''You can only respond to your own review requests'', db)
             else if rr_status request \<noteq> ''pending''
             then (Failure 400 ''Review request has already been responded to'', db)
             else
               (Success 200 None (Some (''Review request '' @ valueOf (rd_status data))),
                db\<lparr>db_gradeReviewRequests :=
                     AList.map_entry docId
                       (\<lambda>r. r\<lparr>rr_status := valueOf (rd_status data),
                               rr_respondedAt := Some (e_now env),
                               rr_responseMessage := spreadIf (rd_message data)\<rparr>)
                       (db_gradeReviewRequests db)\<rparr>)))"

section \<open>The vocabulary of the specification\<close>

text \<open>
  The specification names failures by kind and fixes the status each kind answers with
  (its section on external interfaces): a missing or rejected credential yields 401, a role
  or ownership mismatch 403, a missing resource 404, malformed input 400, a duplicate or
  conflicting state 409, an unhandled failure 500.
\<close>

datatype ErrorKind =
  Unauthenticated | Forbidden | NotFound | ValidationError | Conflict | Internal

definition errorKind :: "nat \<Rightarrow> ErrorKind option" where
  "errorKind code =
     (if code = 401 then Some Unauthenticated
      else if code = 403 then Some Forbidden
      else if code = 404 then Some NotFound
      else if code = 400 then Some ValidationError
      else if code = 409 then Some Conflict
      else if code = 500 then Some Internal
      else None)"

fun failsWith :: "'a Reply \<Rightarrow> ErrorKind \<Rightarrow> bool" where
  "failsWith (Failure code _) kind = (errorKind code = Some kind)"
| "failsWith (Success _ _ _) kind = False"

fun succeeds :: "'a Reply \<Rightarrow> bool" where
  "succeeds (Success _ _ _) = True"
| "succeeds (Failure _ _) = False"

fun replyData :: "'a Reply \<Rightarrow> 'a option" where
  "replyData (Success _ d _) = d"
| "replyData (Failure _ _) = None"







text \<open>The relative error of one rounding to a double, and of \<open>k\<close> roundings in a row.\<close>

definition unitRoundoff :: rat where
  "unitRoundoff = 1 / 2 ^ 53"

definition err :: "nat \<Rightarrow> rat" where
  "err k = (1 + unitRoundoff) ^ k - 1"

text \<open>A time zone without daylight saving: the same offset at every instant.\<close>

definition fixedOffset :: "int \<Rightarrow> TimeZone" where
  "fixedOffset off = \<lparr>tz_ofUtc = (\<lambda>t. off), tz_ofLocal = (\<lambda>l. off)\<rparr>"

text \<open>
  By how many milliseconds the clocks have been set back between the start of the local day
  of \<open>now\<close> and the end of the local day of \<open>d\<close>: the offset in force at the first less the
  offset in force at the second.
\<close>

definition clockShift :: "TimeZone \<Rightarrow> int \<Rightarrow> int \<Rightarrow> int" where
  "clockShift tz now d =
     tz_ofLocal tz (localDay tz now * msPerDay)
       - tz_ofLocal tz (localDay tz d * msPerDay + (msPerDay - 1))"

section \<open>A small world for concrete instances\<close>

text \<open>A host on UTC. The numbers of the examples that are printed are whole, so the host's
  text of a number is never consulted.\<close>

definition exampleEnv :: "int \<Rightarrow> string \<Rightarrow> Env" where
  "exampleEnv now newId =
     \<lparr>e_now = now, e_tz = fixedOffset 0, e_newId = newId, e_sanitizeString = (\<lambda>s. s),
      e_toString = (\<lambda>x. [])\<rparr>"

text \<open>
  New York in the autumn of 2025: local time is four hours behind UTC until 2 November,
  06:00 UTC, when the clocks are set back by an hour; a local time that occurs twice is taken
  as the earlier one. \<open>noonNov1\<close> and \<open>noonNov2\<close> are noon, local time, of 1 and 2 November.
\<close>

definition newYork :: TimeZone where
  "newYork =
     \<lparr>tz_ofUtc = (\<lambda>t. if t < 1762063200000 then - 14400000 else - 18000000),
      tz_ofLocal = (\<lambda>l. if l < 1762063200000 - 14400000 then - 14400000 else - 18000000)\<rparr>"

definition noonNov1 :: int where
  "noonNov1 = 1762012800000"

definition noonNov2 :: int where
  "noonNov2 = 1762102800000"

definition newYorkEnv :: Env where
  "newYorkEnv = (exampleEnv noonNov1 ''a2'')\<lparr>e_tz := newYork\<rparr>"

definition teacher :: AuthenticatedUser where
  "teacher = \<lparr>u_uid = ''t1'', u_email = ''tina@school.example'', u_role = ''teacher'',
              u_name = ''Tina''\<rparr>"

definition student :: AuthenticatedUser where
  "student = \<lparr>u_uid = ''s1'', u_email = ''sam@school.example'', u_role = ''student'',
              u_name = ''Sam''\<rparr>"

text \<open>The rubric of the specification's example: weights 40, 30 and 30, scores 90 and 80,
  the last criterion not scored.\<close>

definition exampleRubric :: "RubricCriterion list" where
  "exampleRubric =
     [\<lparr>rc_id = ''r1'', rc_name = ''Content'', rc_weight = 40, rc_description = None,
       rc_score = Some 90\<rparr>,
      \<lparr>rc_id = ''r2'', rc_name = ''Code Quality'', rc_weight = 30, rc_description = None,
       rc_score = Some 80\<rparr>,
      \<lparr>rc_id = ''r3'', rc_name = ''Documentation'', rc_weight = 30, rc_description = None,
       rc_score = None\<rparr>]"



definition exampleRubricInput :: "RubricScoreInput list" where
  "exampleRubricInput =
     [\<lparr>ri_id = ''r1'', ri_name = ''Content'', ri_weight = 40, ri_description = None,
       ri_score = ScoreNumber 90\<rparr>,
      \<lparr>ri_id = ''r2'', ri_name = ''Code Quality'', ri_weight = 30, ri_description = None,
       ri_score = ScoreNumber 80\<rparr>,
      \<lparr>ri_id = ''r3'', ri_name = ''Documentation'', ri_weight = 30, ri_description = None,
       ri_score = ScoreOther\<rparr>]"

text \<open>An assignment of the teacher, published and due on day 1.\<close>

definition essay :: "bool \<Rightarrow> rat \<Rightarrow> Assignment" where
  "essay allowLate maxAttempts =
     \<lparr>a_id = ''a1'', a_title = ''Essay'', a_description = ''On hooks'',
      a_dueDate = Some msPerDay, a_createdAt = 0, a_updatedAt = None,
      a_teacherId = ''t1'', a_teacherName = ''Tina'', a_status = ''published'',
      a_priority = ''high'', a_difficulty = ''easy'', a_attachmentUrl = None,
      a_allowLateSubmission = allowLate, a_maxAttempts = maxAttempts, a_rubric = None\<rparr>"

text \<open>The student's submission to it, after a given number of attempts, with or without a
  grade.\<close>

definition handedIn :: "int \<Rightarrow> string option \<Rightarrow> Submission" where
  "handedIn attempts gradeId =
     \<lparr>s_id = ''sub1'', s_assignmentId = ''a1'', s_studentId = ''s1'', s_studentName = ''Sam'',
      s_submittedAt = 1000, s_fileUrl = None, s_textContent = Some ''Draft'',
      s_status = ''submitted'', s_attemptHistory = [], s_currentAttempt = attempts,
      s_integrityConfirmed = True, s_feedbackId = None, s_gradeId = gradeId\<rparr>"

definition mark :: "string \<Rightarrow> Grade" where
  "mark status =
     \<lparr>g_id = ''g1'', g_submissionId = ''sub1'', g_teacherId = ''t1'', g_teacherName = ''Tina'',
      g_numericScore = Some 85, g_letterGrade = Some ''B'', g_rubricScores = None,
      g_totalScore = None, g_comments = None, g_status = status, g_gradedAt = Some 2000,
      g_publishedAt = None\<rparr>"

definition review :: "string \<Rightarrow> GradeReviewRequest" where
  "review status =
     \<lparr>rr_id = ''r1'', rr_gradeId = ''g1'', rr_studentId = ''s1'', rr_studentName = ''Sam'',
      rr_assignmentId = ''a1'', rr_assignmentTitle = ''Essay'', rr_message = ''Please recheck'',
      rr_status = status, rr_createdAt = 3000, rr_respondedAt = None,
      rr_responseMessage = None, rr_teacherId = ''t1''\<rparr>"

definition emptyDb :: Db where
  "emptyDb = \<lparr>db_assignments = [], db_submissions = [], db_grades = [],
               db_gradeReviewRequests = []\<rparr>"

definition world ::
  "Assignment \<Rightarrow> (string \<times> Submission) list \<Rightarrow> (string \<times> Grade) list
     \<Rightarrow> (string \<times> GradeReviewRequest) list \<Rightarrow> Db" where
  "world a subs gs rs =
     \<lparr>db_assignments = [(''a1'', a)], db_submissions = subs, db_grades = gs,
      db_gradeReviewRequests = rs\<rparr>"

definition essayText :: CreateSubmissionDTO where
  "essayText = \<lparr>cs_assignmentId = Some ''a1'', cs_textContent = Some ''My essay'',
                cs_fileUrl = None, cs_integrityConfirmed = True\<rparr>"

text \<open>A submission that carries a file and no text.\<close>

definition essayFile :: CreateSubmissionDTO where
  "essayFile = \<lparr>cs_assignmentId = Some ''a1'', cs_textContent = None,
                cs_fileUrl = Some ''essay.pdf'', cs_integrityConfirmed = True\<rparr>"

definition rubricGrade :: CreateGradeDTO where
  "rubricGrade = \<lparr>cg_submissionId = Some ''sub1'', cg_numericScore = None,
                  cg_letterGrade = None, cg_rubricScores = Some exampleRubricInput,
                  cg_totalScore = None, cg_comments = None, cg_status = None\<rparr>"

definition numericGrade :: CreateGradeDTO where
  "numericGrade = \<lparr>cg_submissionId = Some ''sub1'', cg_numericScore = Some 72,
                   cg_letterGrade = None, cg_rubricScores = None,
                   cg_totalScore = None, cg_comments = None, cg_status = None\<rparr>"


definition essayRequest :: "rat option \<Rightarrow> CreateAssignmentDTO" where
  "essayRequest maxAttempts =
     \<lparr>ca_title = Some ''Essay'', ca_description = Some ''On hooks'',
      ca_dueDate = Some (Some (10 * msPerDay)), ca_difficulty = Some ''easy'',
      ca_status = None, ca_allowLateSubmission = None, ca_maxAttempts = maxAttempts,
      ca_rubric = None, ca_attachmentUrl = None\<rparr>"

definition dueDateUpdate :: "DateString option \<Rightarrow> UpdateAssignmentDTO" where
  "dueDateUpdate dueDate =
     \<lparr>ua_title = None, ua_description = None, ua_dueDate = dueDate, ua_status = None,
      ua_priority = Some ''low'', ua_difficulty = None, ua_allowLateSubmission = None,
      ua_maxAttempts = None, ua_rubric = None, ua_attachmentUrl = None\<rparr>"

text \<open>A class of two students: Sam's grade \<open>g1\<close> is published, a second grade \<open>g3\<close> on
  Sam's submission is still a draft, and \<open>g2\<close> is the published grade of another student.\<close>

definition classDb :: Db where
  "classDb =
     world (essay True 3)
       [(''sub1'', handedIn 1 (Some ''g1'')),
        (''sub2'', (handedIn 1 (Some ''g2''))\<lparr>s_studentId := ''s2''\<rparr>)]
       [(''g1'', mark ''finalized''),
        (''g2'', (mark ''finalized'')\<lparr>g_submissionId := ''sub2''\<rparr>),
        (''g3'', mark ''draft'')]
       []"

text \<open>The submission of another student to the same assignment.\<close>

definition otherStudent :: "string \<times> Submission" where
  "otherStudent = (''sub2'', (handedIn 1 None)\<lparr>s_studentId := ''s2''\<rparr>)"

text \<open>A store a teacher reaches from the empty one by creating an assignment with
  \<open>maxAttempts: 0\<close>.\<close>

definition zeroAttemptsDb :: Db where
  "zeroAttemptsDb =
     snd (createAssignment (exampleEnv 0 ''a1'') teacher (essayRequest (Some 0)) emptyDb)"

section \<open>Arithmetic of the helpers\<close>

lemma diffDays_eq:
  "Math_ceil (of_int (setHoursEnd tz d - setHoursStart tz n) / of_int msPerDay)
     = localDay tz d - localDay tz n + 1
       + Math_ceil (of_int (clockShift tz n d - 1) / of_int msPerDay)"
proof -
  define k where "k = localDay tz d - localDay tz n + 1"
  define s where "s = clockShift tz n d - 1"
  have D: "(of_int msPerDay :: rat) \<noteq> 0" by (simp add: msPerDay_def)
  have e: "setHoursEnd tz d - setHoursStart tz n = k * msPerDay + s"
    by (simp add: setHoursEnd_def setHoursStart_def clockShift_def k_def s_def Let_def
          algebra_simps)
  have "(of_int (k * msPerDay + s) :: rat) / of_int msPerDay
          = of_int s / of_int msPerDay + of_int k"
    using D by (simp add: field_simps)
  then have "Math_ceil (of_int (k * msPerDay + s) / of_int msPerDay)
               = Math_ceil (of_int s / of_int msPerDay) + k"
    unfolding Math_ceil_def by (simp only: ceiling_add_of_int)
  then show ?thesis unfolding e k_def s_def by simp
qed

lemma Math_ceil_within_day:
  "- msPerDay < s \<Longrightarrow> s \<le> 0 \<Longrightarrow> Math_ceil (of_int s / of_int msPerDay) = 0"
  "0 < s \<Longrightarrow> s \<le> msPerDay \<Longrightarrow> Math_ceil (of_int s / of_int msPerDay) = 1"
proof -
  have D: "(0::rat) < of_int msPerDay" by (simp add: msPerDay_def)
  show "Math_ceil (of_int s / of_int msPerDay) = 0" if "- msPerDay < s" "s \<le> 0"
  proof -
    have "(of_int (- msPerDay) :: rat) < of_int s" "(of_int s :: rat) \<le> of_int 0"
      using that by (simp_all only: of_int_less_iff of_int_le_iff)
    then have "of_int 0 - 1 < (of_int s :: rat) / of_int msPerDay"
              "(of_int s :: rat) / of_int msPerDay \<le> of_int 0"
      using D by (simp_all add: field_simps)
    then show ?thesis unfolding Math_ceil_def by (rule ceiling_unique)
  qed
  show "Math_ceil (of_int s / of_int msPerDay) = 1" if "0 < s" "s \<le> msPerDay"
  proof -
    have "(of_int 0 :: rat) < of_int s" "(of_int s :: rat) \<le> of_int msPerDay"
      using that by (simp_all only: of_int_less_iff of_int_le_iff)
    then have "of_int 1 - 1 < (of_int s :: rat) / of_int msPerDay"
              "(of_int s :: rat) / of_int msPerDay \<le> of_int 1"
      using D by (simp_all add: field_simps)
    then show ?thesis unfolding Math_ceil_def by (rule ceiling_unique)
  qed
qed

lemma clockShift_fixedOffset: "clockShift (fixedOffset off) n d = 0"
  by (simp add: clockShift_def fixedOffset_def)

lemma priority_by_diffDays:
  "calculatePriorityFromDeadline env (Some d) =
     (if Math_ceil (of_int (setHoursEnd (e_tz env) d - setHoursStart (e_tz env) (e_now env))
                      / of_int msPerDay) \<le> 2 then ''high''
      else if Math_ceil (of_int (setHoursEnd (e_tz env) d - setHoursStart (e_tz env) (e_now env))
                      / of_int msPerDay) \<le> 5 then ''medium''
      else ''low'')"
  by (simp add: calculatePriorityFromDeadline_def Let_def)


lemma getPaginationParams_bounds:
  "1 \<le> p_page (getPaginationParams q) \<and> 1 \<le> p_limit (getPaginationParams q)
   \<and> p_limit (getPaginationParams q) \<le> 100"
  by (simp add: getPaginationParams_def Let_def)

lemma slice_nonneg:
  assumes "0 \<le> s" "s \<le> e"
  shows "slice xs s e = take (nat (e - s)) (drop (nat s) xs)"
proof (cases "s \<ge> int (length xs)")
  case True
  then have "drop (nat s) xs = []" by simp
  moreover have "drop (nat (min s (int (length xs)))) xs = []" using True by simp
  ultimately show ?thesis
    using assms by (simp add: slice_def Let_def)
next
  case False
  then have k: "min s (int (length xs)) = s" by simp
  show ?thesis
  proof (cases "e \<le> int (length xs)")
    case True
    then show ?thesis using assms k by (simp add: slice_def Let_def)
  next
    case e: False
    then have f: "min e (int (length xs)) = int (length xs)" by simp
    have "length (drop (nat s) xs) \<le> nat (int (length xs) - s)" using assms by simp
    moreover have "length (drop (nat s) xs) \<le> nat (e - s)" using assms e by simp
    ultimately have "take (nat (int (length xs) - s)) (drop (nat s) xs)
                       = take (nat (e - s)) (drop (nat s) xs)"
      by simp
    then show ?thesis using assms k f by (simp add: slice_def Let_def)
  qed
qed

lemma slice_page:
  assumes "1 \<le> page" "1 \<le> limit"
  shows "slice xs ((page - 1) * limit) (page * limit)
           = take (nat limit) (drop (nat ((page - 1) * limit)) xs)"
proof -
  have "0 \<le> (page - 1) * limit" using assms by simp
  moreover have "(page - 1) * limit \<le> page * limit" using assms by (simp add: mult_right_mono)
  moreover have "page * limit - (page - 1) * limit = limit" by (simp add: algebra_simps)
  ultimately show ?thesis
    using slice_nonneg [of "(page - 1) * limit" "page * limit" xs] by simp
qed

lemma set_slice: "set (slice xs s e) \<subseteq> set xs"
  unfolding slice_def Let_def
  by (meson order_trans set_take_subset set_drop_subset)

lemma paginate_data:
  "pr_data (paginate xs q) =
     take (nat (p_limit (getPaginationParams q)))
       (drop (nat ((p_page (getPaginationParams q) - 1) * p_limit (getPaginationParams q))) xs)"
  using getPaginationParams_bounds [of q]
  by (simp add: paginate_def Let_def buildPaginatedResponse_def slice_page)


section \<open>Pagination\<close>



section \<open>What the handlers answer to a well-formed request\<close>

lemma truthy_Some [simp]: "truthy (Some v) = (v \<noteq> [])"
  by (simp add: truthy_def)

lemma truthy_None [simp]: "\<not> truthy None"
  by (simp add: truthy_def)

lemma valueOf_Some [simp]: "valueOf (Some v) = v"
  by (simp add: valueOf_def)

lemma spreadIf_simps [simp]:
  "spreadIf None = None"
  "spreadIf (Some v) = (if v = [] then None else Some v)"
  by (simp_all add: spreadIf_def)

lemma calculateLetterGrade_nonempty [simp]: "calculateLetterGrade s \<noteq> []"
  by (simp add: calculateLetterGrade_def)

lemma createAssignment_accepted:
  assumes "u_role user = ''teacher''"
      and "truthy (ca_title data)" "truthy (ca_description data)" "truthy (ca_difficulty data)"
      and "ca_dueDate data = Some dueDate"
  shows "createAssignment env user data db =
           (Success 201 (Some (newAssignmentDoc env user data dueDate))
              (Some ''Assignment created successfully''),
            db\<lparr>db_assignments :=
                 AList.update (e_newId env) (newAssignmentDoc env user data dueDate)
                   (db_assignments db)\<rparr>)"
  using assms by (simp add: createAssignment_def requireRoleFails_def Let_def)

lemma updateAssignment_accepted:
  assumes "u_role user = ''teacher''"
      and "map_of (db_assignments db) docId = Some a"
      and "a_teacherId a = u_uid user"
  shows "updateAssignment env user docId updates db =
           (Success 200 (Some ((assignmentUpdateData env updates a)\<lparr>a_id := docId\<rparr>))
              (Some ''Assignment updated successfully''),
            db\<lparr>db_assignments :=
                 AList.map_entry docId (assignmentUpdateData env updates) (db_assignments db)\<rparr>)"
  using assms
  by (simp add: updateAssignment_def requireRoleFails_def Let_def map_of_map_entry)

lemma createGrade_accepted:
  assumes "u_role user = ''teacher''"
      and "cg_submissionId data = Some sid" "sid \<noteq> []"
      and "map_of (db_submissions db) sid = Some sub"
      and "map_of (db_assignments db) (s_assignmentId sub) = Some a"
      and "a_teacherId a = u_uid user"
      and "\<not> truthy (s_gradeId sub)"
  shows "createGrade env user data db =
           (Success 201 (Some (newGradeDoc env user data)) (Some ''Grade created successfully''),
            db\<lparr>db_grades := AList.update (e_newId env) (newGradeDoc env user data) (db_grades db),
               db_submissions :=
                 AList.map_entry sid (\<lambda>s. s\<lparr>s_gradeId := Some (e_newId env)\<rparr>)
                   (db_submissions db)\<rparr>)"
  using assms by (simp add: createGrade_def requireRoleFails_def Let_def)


lemma newGradeDoc_letter:
  assumes "\<not> truthy (cg_letterGrade data)"
  shows "g_letterGrade (newGradeDoc env user data) =
           (case cg_rubricScores data of
              Some (c # cs) \<Rightarrow>
                Some (calculateLetterGrade
                        (calculateTotalFromRubric (sanitizeRubricScores (c # cs))))
            | _ \<Rightarrow> map_option calculateLetterGrade (cg_numericScore data))"
  using assms
  by (auto simp: newGradeDoc_def deriveGradeFields_def Let_def truthy_def spreadIf_def
           split: option.splits list.splits)


text \<open>The example rubric of the specification, evaluated in doubles.\<close>

lemma exampleRubric_total: "calculateTotalFromRubric exampleRubric = 86"
  by code_simp

lemma sanitized_example: "sanitizeRubricScores exampleRubricInput = exampleRubric"
  by (simp add: sanitizeRubricScores_def exampleRubricInput_def exampleRubric_def)

section \<open>Letter grades\<close>

lemma createGrade_letter:
  assumes "u_role user = ''teacher''"
      and "cg_submissionId data = Some sid" "sid \<noteq> []"
      and "map_of (db_submissions db) sid = Some sub"
      and "map_of (db_assignments db) (s_assignmentId sub) = Some a"
      and "a_teacherId a = u_uid user"
      and "\<not> truthy (s_gradeId sub)"
      and "\<not> truthy (cg_letterGrade data)"
  shows "\<exists>grade db'.
            createGrade env user data db =
              (Success 201 (Some grade) (Some ''Grade created successfully''), db')
            \<and> map_of (db_grades db') (e_newId env) = Some grade
            \<and> g_letterGrade grade =
                (case cg_rubricScores data of
                   Some (c # cs) \<Rightarrow>
                     Some (calculateLetterGrade
                             (calculateTotalFromRubric (sanitizeRubricScores (c # cs))))
                 | _ \<Rightarrow> map_option calculateLetterGrade (cg_numericScore data))"
proof -
  have stored: "map_of (AList.update (e_newId env) (newGradeDoc env user data) (db_grades db))
                  (e_newId env) = Some (newGradeDoc env user data)"
    by (simp add: update_conv')
  show ?thesis
    using createGrade_accepted [OF assms(1-7), of env]
          newGradeDoc_letter [OF assms(8), of env user] stored
    by simp
qed

text \<open>
  Claim C7. The letter derived from a numeric score is A from 90 up, B from 80 to below 90,
  C from 70 to below 80, D from 60 to below 70 and F below 60. When a teacher creates a grade
  without a letter, the grade gets the letter of the rubric total if a non-empty list of
  rubric scores is supplied, and otherwise the letter of the numeric score if there is one.
\<close>

theorem letter_grade_from_score:
  "(calculateLetterGrade s = ''A'') = (s \<ge> 90)
   \<and> (calculateLetterGrade s = ''B'') = (80 \<le> s \<and> s < 90)
   \<and> (calculateLetterGrade s = ''C'') = (70 \<le> s \<and> s < 80)
   \<and> (calculateLetterGrade s = ''D'') = (60 \<le> s \<and> s < 70)
   \<and> (calculateLetterGrade s = ''F'') = (s < 60)
   \<and> (u_role user = ''teacher''
        \<and> cg_submissionId data = Some sid \<and> sid \<noteq> []
        \<and> map_of (db_submissions db) sid = Some sub
        \<and> map_of (db_assignments db) (s_assignmentId sub) = Some a
        \<and> a_teacherId a = u_uid user
        \<and> \<not> truthy (s_gradeId sub)
        \<and> \<not> truthy (cg_letterGrade data)
      \<longrightarrow> (\<exists>grade db'.
             createGrade env user data db =
               (Success 201 (Some grade) (Some ''Grade created successfully''), db')
             \<and> map_of (db_grades db') (e_newId env) = Some grade
             \<and> g_letterGrade grade =
                 (case cg_rubricScores data of
                    Some (c # cs) \<Rightarrow>
                      Some (calculateLetterGrade
                              (calculateTotalFromRubric (sanitizeRubricScores (c # cs))))
                  | _ \<Rightarrow> map_option calculateLetterGrade (cg_numericScore data))))"
proof -
  have thresholds:
    "(calculateLetterGrade s = ''A'') = (s \<ge> 90)"
    "(calculateLetterGrade s = ''B'') = (80 \<le> s \<and> s < 90)"
    "(calculateLetterGrade s = ''C'') = (70 \<le> s \<and> s < 80)"
    "(calculateLetterGrade s = ''D'') = (60 \<le> s \<and> s < 70)"
    "(calculateLetterGrade s = ''F'') = (s < 60)"
    by (auto simp: calculateLetterGrade_def)
  from thresholds createGrade_letter [of user data sid db sub a env]
  show ?thesis by blast
qed

theorem letter_grade_from_score_witness:
  "u_role teacher = ''teacher''
   \<and> map_of (db_submissions (world (essay True 3) [(''sub1'', handedIn 1 None)] [] [])) ''sub1''
       = Some (handedIn 1 None)
   \<and> \<not> truthy (cg_letterGrade rubricGrade)
   \<and> calculateLetterGrade 89 = ''B''
   \<and> (\<exists>grade db'.
         createGrade (exampleEnv 5000 ''g1'') teacher rubricGrade
             (world (essay True 3) [(''sub1'', handedIn 1 None)] [] [])
           = (Success 201 (Some grade) (Some ''Grade created successfully''), db')
         \<and> g_letterGrade grade = Some ''B'')
   \<and> (\<exists>grade db'.
         createGrade (exampleEnv 5000 ''g1'') teacher numericGrade
             (world (essay True 3) [(''sub1'', handedIn 1 None)] [] [])
           = (Success 201 (Some grade) (Some ''Grade created successfully''), db')
         \<and> g_letterGrade grade = Some ''C'')"
proof -
  let ?db = "world (essay True 3) [(''sub1'', handedIn 1 None)] [] []"
  let ?env = "exampleEnv 5000 ''g1''"
  have pre: "u_role teacher = ''teacher''"
     "map_of (db_submissions ?db) ''sub1'' = Some (handedIn 1 None)"
     "map_of (db_assignments ?db) (s_assignmentId (handedIn 1 None)) = Some (essay True 3)"
     "a_teacherId (essay True 3) = u_uid teacher"
     "\<not> truthy (s_gradeId (handedIn 1 None))"
     "''sub1'' \<noteq> []"
    by (simp_all add: teacher_def world_def handedIn_def essay_def)
  have r: "cg_submissionId rubricGrade = Some ''sub1''" "\<not> truthy (cg_letterGrade rubricGrade)"
    by (simp_all add: rubricGrade_def)
  have n: "cg_submissionId numericGrade = Some ''sub1''" "\<not> truthy (cg_letterGrade numericGrade)"
    by (simp_all add: numericGrade_def)
  note rubricCase =
    letter_grade_from_score
      [where s = 89 and user = teacher and data = rubricGrade and sid = "''sub1''" and db = ?db
         and sub = "handedIn 1 None" and a = "essay True 3" and env = ?env]
  note numericCase =
    letter_grade_from_score
      [where s = 89 and user = teacher and data = numericGrade and sid = "''sub1''" and db = ?db
         and sub = "handedIn 1 None" and a = "essay True 3" and env = ?env]
  have rubricLetter:
    "(case cg_rubricScores rubricGrade of
        Some (c # cs) \<Rightarrow>
          Some (calculateLetterGrade (calculateTotalFromRubric (sanitizeRubricScores (c # cs))))
      | _ \<Rightarrow> map_option calculateLetterGrade (cg_numericScore rubricGrade)) = Some ''B''"
  proof -
    have supplied: "cg_rubricScores rubricGrade
                      = Some (hd exampleRubricInput # tl exampleRubricInput)"
      by (simp add: rubricGrade_def exampleRubricInput_def)
    have "hd exampleRubricInput # tl exampleRubricInput = exampleRubricInput"
      by (simp add: exampleRubricInput_def)
    then have total: "calculateTotalFromRubric
                        (sanitizeRubricScores (hd exampleRubricInput # tl exampleRubricInput)) = 86"
      by (simp add: sanitized_example exampleRubric_total)
    show ?thesis
      unfolding supplied option.case list.case total by (simp add: calculateLetterGrade_def)
  qed
  have numericLetter:
    "(case cg_rubricScores numericGrade of
        Some (c # cs) \<Rightarrow>
          Some (calculateLetterGrade (calculateTotalFromRubric (sanitizeRubricScores (c # cs))))
      | _ \<Rightarrow> map_option calculateLetterGrade (cg_numericScore numericGrade)) = Some ''C''"
    by (simp add: numericGrade_def calculateLetterGrade_def)
  have b89: "calculateLetterGrade 89 = ''B''"
    using rubricCase by simp
  have fromRubric:
    "\<exists>grade db'.
         createGrade ?env teacher rubricGrade ?db
           = (Success 201 (Some grade) (Some ''Grade created successfully''), db')
         \<and> g_letterGrade grade = Some ''B''"
    using rubricCase pre r unfolding rubricLetter by blast
  have fromNumeric:
    "\<exists>grade db'.
         createGrade ?env teacher numericGrade ?db
           = (Success 201 (Some grade) (Some ''Grade created successfully''), db')
         \<and> g_letterGrade grade = Some ''C''"
    using numericCase pre n unfolding numericLetter by blast
  show ?thesis
    using pre(1,2) r(2) b89 fromRubric fromNumeric by blast
qed

section \<open>Priority\<close>

lemma createAssignment_priority:
  assumes "u_role user = ''teacher''"
      and "truthy (ca_title data)" "truthy (ca_description data)" "truthy (ca_difficulty data)"
      and "ca_dueDate data = Some dueDate"
  shows "\<exists>created db'.
           createAssignment env user data db =
             (Success 201 (Some created) (Some ''Assignment created successfully''), db')
           \<and> map_of (db_assignments db') (e_newId env) = Some created
           \<and> a_priority created = calculatePriorityFromDeadline env dueDate"
  using createAssignment_accepted [OF assms, of env db]
  by (simp add: update_conv' newAssignmentDoc_def Let_def)

lemma updateAssignment_priority:
  assumes "u_role user = ''teacher''"
      and "map_of (db_assignments db) docId = Some a"
      and "a_teacherId a = u_uid user"
  shows "\<exists>updated db'.
           updateAssignment env user docId updates db =
             (Success 200 (Some updated) (Some ''Assignment updated successfully''), db')
           \<and> map_of (db_assignments db') docId = Some (updated\<lparr>a_id := a_id a\<rparr>)
           \<and> a_priority updated =
               (case ua_dueDate updates of
                  None \<Rightarrow> a_priority a
                | Some newDueDate \<Rightarrow> calculatePriorityFromDeadline env newDueDate)"
  using updateAssignment_accepted [OF assms, of env updates] assms(2)
  by (simp add: map_of_map_entry assignmentUpdateData_def)

text \<open>
  Claim C5, as the code has it. The day difference of \<open>calculatePriorityFromDeadline\<close> is
  the ceiling of the time from the start of today to the end of the due day, in days, both
  in the local time of the host. It is the number of calendar days between the two plus
  one, plus the time by which the clocks have been set back in between, less a millisecond,
  in days rounded up. So when the offset from UTC is the same at the two instants, as it
  always is on a host without daylight saving, or the clocks have been set forward by less
  than a day, the difference is the calendar days plus one: a deadline today counts as day
  1, not day 0. When the clocks have been set back in between, by at most a day, it is the
  calendar days plus two. The priority is \<open>'high'\<close> iff the difference is at most 2,
  \<open>'medium'\<close> iff it is 3 to 5 and \<open>'low'\<close> iff it is larger; a due date that does not
  parse gives \<open>'low'\<close>. The server computes the priority of a new assignment from its due
  date, and an update recomputes it exactly when it carries a due date; a priority sent by
  the caller is ignored.
\<close>

theorem priority_from_deadline:
  "(let tz = e_tz env;
        days = localDay tz d - localDay tz (e_now env);
        shift = clockShift tz (e_now env) d;
        diffDays = Math_ceil (of_int (setHoursEnd tz d - setHoursStart tz (e_now env))
                                / of_int msPerDay);
        priority = calculatePriorityFromDeadline env (Some d)
    in diffDays = days + 1 + Math_ceil (of_int (shift - 1) / of_int msPerDay)
     \<and> (1 - msPerDay < shift \<and> shift \<le> 1 \<longrightarrow> diffDays = days + 1)
     \<and> (1 < shift \<and> shift \<le> msPerDay + 1 \<longrightarrow> diffDays = days + 2)
     \<and> (priority = ''high'') = (diffDays \<le> 2)
     \<and> (priority = ''medium'') = (3 \<le> diffDays \<and> diffDays \<le> 5)
     \<and> (priority = ''low'') = (5 < diffDays))
   \<and> clockShift (fixedOffset off) (e_now env) d = 0
   \<and> calculatePriorityFromDeadline env None = ''low''
   \<and> (u_role user = ''teacher''
        \<and> truthy (ca_title data) \<and> truthy (ca_description data) \<and> truthy (ca_difficulty data)
        \<and> ca_dueDate data = Some dueDate
      \<longrightarrow> (\<exists>created db'.
             createAssignment env user data db =
               (Success 201 (Some created) (Some ''Assignment created successfully''), db')
             \<and> map_of (db_assignments db') (e_newId env) = Some created
             \<and> a_priority created = calculatePriorityFromDeadline env dueDate))
   \<and> (u_role user = ''teacher''
        \<and> map_of (db_assignments db) docId = Some a
        \<and> a_teacherId a = u_uid user
      \<longrightarrow> (\<exists>updated db'.
             updateAssignment env user docId updates db =
               (Success 200 (Some updated) (Some ''Assignment updated successfully''), db')
             \<and> map_of (db_assignments db') docId = Some (updated\<lparr>a_id := a_id a\<rparr>)
             \<and> a_priority updated =
                 (case ua_dueDate updates of
                    None \<Rightarrow> a_priority a
                  | Some newDueDate \<Rightarrow> calculatePriorityFromDeadline env newDueDate)))"
proof -
  define tz where "tz = e_tz env"
  define days where "days = localDay tz d - localDay tz (e_now env)"
  define shift where "shift = clockShift tz (e_now env) d"
  define diffDays where
    "diffDays = Math_ceil (of_int (setHoursEnd tz d - setHoursStart tz (e_now env))
                             / of_int msPerDay)"
  define priority where "priority = calculatePriorityFromDeadline env (Some d)"
  have general: "diffDays = days + 1 + Math_ceil (of_int (shift - 1) / of_int msPerDay)"
    unfolding diffDays_def days_def shift_def by (rule diffDays_eq)
  have same: "diffDays = days + 1" if "1 - msPerDay < shift \<and> shift \<le> 1"
  proof -
    have "Math_ceil (of_int (shift - 1) / of_int msPerDay) = 0"
      by (rule Math_ceil_within_day(1)) (use that in simp_all)
    then show ?thesis using general by simp
  qed
  have setBack: "diffDays = days + 2" if "1 < shift \<and> shift \<le> msPerDay + 1"
  proof -
    have "Math_ceil (of_int (shift - 1) / of_int msPerDay) = 1"
      by (rule Math_ceil_within_day(2)) (use that in simp_all)
    then show ?thesis using general by simp
  qed
  have p: "priority = (if diffDays \<le> 2 then ''high''
                       else if diffDays \<le> 5 then ''medium'' else ''low'')"
    unfolding priority_def diffDays_def tz_def by (rule priority_by_diffDays)
  have thresholds:
    "(priority = ''high'') = (diffDays \<le> 2)"
    "(priority = ''medium'') = (3 \<le> diffDays \<and> diffDays \<le> 5)"
    "(priority = ''low'') = (5 < diffDays)"
    unfolding p by auto
  have first: "(let tz = e_tz env;
        days = localDay tz d - localDay tz (e_now env);
        shift = clockShift tz (e_now env) d;
        diffDays = Math_ceil (of_int (setHoursEnd tz d - setHoursStart tz (e_now env))
                                / of_int msPerDay);
        priority = calculatePriorityFromDeadline env (Some d)
    in diffDays = days + 1 + Math_ceil (of_int (shift - 1) / of_int msPerDay)
     \<and> (1 - msPerDay < shift \<and> shift \<le> 1 \<longrightarrow> diffDays = days + 1)
     \<and> (1 < shift \<and> shift \<le> msPerDay + 1 \<longrightarrow> diffDays = days + 2)
     \<and> (priority = ''high'') = (diffDays \<le> 2)
     \<and> (priority = ''medium'') = (3 \<le> diffDays \<and> diffDays \<le> 5)
     \<and> (priority = ''low'') = (5 < diffDays))"
    unfolding Let_def tz_def [symmetric] days_def [symmetric] shift_def [symmetric]
      diffDays_def [symmetric] priority_def [symmetric]
    using general same setBack thresholds by blast
  have unparsed: "calculatePriorityFromDeadline env None = ''low''"
    by (simp add: calculatePriorityFromDeadline_def)
  from first unparsed clockShift_fixedOffset [of off "e_now env" d]
       createAssignment_priority [of user data dueDate env db]
       updateAssignment_priority [of user db docId a env updates]
  show ?thesis by blast
qed

theorem priority_from_deadline_witness:
  "u_role teacher = ''teacher''
   \<and> ca_dueDate (essayRequest None) = Some (Some (10 * msPerDay))
   \<and> map_of (db_assignments (world (essay True 3) [] [] [])) ''a1'' = Some (essay True 3)
   \<and> clockShift (e_tz (exampleEnv 0 ''a2'')) 0 msPerDay = 0
   \<and> localDay (e_tz (exampleEnv 0 ''a2'')) msPerDay - localDay (e_tz (exampleEnv 0 ''a2'')) 0 = 1
   \<and> calculatePriorityFromDeadline (exampleEnv 0 ''a2'') (Some msPerDay) = ''high''
   \<and> clockShift newYork noonNov1 noonNov2 = 3600000
   \<and> localDay newYork noonNov2 - localDay newYork noonNov1 = 1
   \<and> calculatePriorityFromDeadline newYorkEnv (Some noonNov2) = ''medium''
   \<and> (\<exists>created db'.
         createAssignment (exampleEnv 0 ''a2'') teacher (essayRequest None)
             (world (essay True 3) [] [] [])
           = (Success 201 (Some created) (Some ''Assignment created successfully''), db')
         \<and> a_priority created = ''low'')
   \<and> ua_priority (dueDateUpdate (Some (Some (3 * msPerDay)))) = Some ''low''
   \<and> (\<exists>updated db'.
         updateAssignment (exampleEnv 0 ''a2'') teacher ''a1''
             (dueDateUpdate (Some (Some (3 * msPerDay)))) (world (essay True 3) [] [] [])
           = (Success 200 (Some updated) (Some ''Assignment updated successfully''), db')
         \<and> a_priority updated = ''medium'')"
proof -
  let ?env = "exampleEnv 0 ''a2''"
  let ?db = "world (essay True 3) [] [] []"
  let ?updates = "dueDateUpdate (Some (Some (3 * msPerDay)))"
  have pre: "u_role teacher = ''teacher''"
    "truthy (ca_title (essayRequest None))" "truthy (ca_description (essayRequest None))"
    "truthy (ca_difficulty (essayRequest None))"
    "ca_dueDate (essayRequest None) = Some (Some (10 * msPerDay))"
    "map_of (db_assignments ?db) ''a1'' = Some (essay True 3)"
    "a_teacherId (essay True 3) = u_uid teacher"
    by (simp_all add: teacher_def essayRequest_def world_def essay_def)
  note handlers =
    priority_from_deadline
      [where env = ?env and d = msPerDay and user = teacher and data = "essayRequest None"
         and dueDate = "Some (10 * msPerDay)" and db = ?db and docId = "''a1''"
         and a = "essay True 3" and updates = ?updates and off = 0]
  have clock: "e_tz ?env = fixedOffset 0" "e_now ?env = 0"
              "e_tz newYorkEnv = newYork" "e_now newYorkEnv = noonNov1"
    by (simp_all add: exampleEnv_def newYorkEnv_def)
  have shift: "clockShift (fixedOffset 0) 0 d = 0" for d
    by (simp add: clockShift_def fixedOffset_def)
  have days: "localDay (fixedOffset 0) msPerDay - localDay (fixedOffset 0) 0 = 1"
             "localDay (fixedOffset 0) (10 * msPerDay) - localDay (fixedOffset 0) 0 = 10"
             "localDay (fixedOffset 0) (3 * msPerDay) - localDay (fixedOffset 0) 0 = 3"
    by (simp_all add: localDay_def fixedOffset_def msPerDay_def)
  have setBack: "clockShift newYork noonNov1 noonNov2 = 3600000"
                "localDay newYork noonNov2 - localDay newYork noonNov1 = 1"
    by (simp_all add: clockShift_def localDay_def newYork_def noonNov1_def noonNov2_def
          msPerDay_def)
  have day: "1 - msPerDay < 0 \<and> (0::int) \<le> 1" "(1::int) < 3600000 \<and> 3600000 \<le> msPerDay + 1"
    by (simp_all add: msPerDay_def)
  have utc: "calculatePriorityFromDeadline ?env (Some d) =
               (if localDay (fixedOffset 0) d - localDay (fixedOffset 0) 0 + 1 \<le> 2 then ''high''
                else if localDay (fixedOffset 0) d - localDay (fixedOffset 0) 0 + 1 \<le> 5
                then ''medium'' else ''low'')" for d
  proof -
    note i = priority_from_deadline [where env = ?env and d = d and off = 0,
                                     unfolded Let_def clock shift]
    from i day(1)
    have "Math_ceil (of_int (setHoursEnd (fixedOffset 0) d - setHoursStart (fixedOffset 0) 0)
                       / of_int msPerDay)
            = localDay (fixedOffset 0) d - localDay (fixedOffset 0) 0 + 1"
      by blast
    with i show ?thesis by auto
  qed
  have p: "calculatePriorityFromDeadline ?env (Some msPerDay) = ''high''"
    unfolding utc days by simp
  have p10: "calculatePriorityFromDeadline ?env (Some (10 * msPerDay)) = ''low''"
    unfolding utc days by simp
  have p3: "calculatePriorityFromDeadline ?env (Some (3 * msPerDay)) = ''medium''"
    unfolding utc days by simp
  have ny: "calculatePriorityFromDeadline newYorkEnv (Some noonNov2) = ''medium''"
  proof -
    note i = priority_from_deadline [where env = newYorkEnv and d = noonNov2 and off = 0,
                                     unfolded Let_def clock setBack]
    from i day(2)
    have "Math_ceil (of_int (setHoursEnd newYork noonNov2 - setHoursStart newYork noonNov1)
                       / of_int msPerDay) = 1 + 2"
      by blast
    with i show ?thesis by auto
  qed
  have u: "ua_dueDate ?updates = Some (Some (3 * msPerDay))" "ua_priority ?updates = Some ''low''"
    by (simp_all add: dueDateUpdate_def)
  have created: "\<exists>created db'.
         createAssignment ?env teacher (essayRequest None) ?db
           = (Success 201 (Some created) (Some ''Assignment created successfully''), db')
         \<and> a_priority created = ''low''"
    using handlers pre unfolding p10 by blast
  have updated: "\<exists>updated db'.
         updateAssignment ?env teacher ''a1'' ?updates ?db
           = (Success 200 (Some updated) (Some ''Assignment updated successfully''), db')
         \<and> a_priority updated = ''medium''"
    using handlers pre unfolding u option.case p3 by blast
  show ?thesis
    unfolding clock
    using pre(1,5,6) shift [of msPerDay] days(1) p setBack ny created u(2) updated
    by blast
qed

text \<open>
  Claim C5 as the specification words it, with \<open>'high'\<close> up to two days out and a
  deadline today counted as day 0, fails on this instance, on a host on UTC: a deadline two
  calendar days ahead is \<open>'medium'\<close>, and the day difference of a deadline today is 1.
\<close>

theorem priority_counts_from_day_one_counterexample:
  "localDay (fixedOffset 0) (2 * msPerDay) - localDay (fixedOffset 0) 0 = 2
   \<and> calculatePriorityFromDeadline (exampleEnv 0 ''a1'') (Some (2 * msPerDay)) = ''medium''
   \<and> calculatePriorityFromDeadline (exampleEnv 0 ''a1'') (Some (2 * msPerDay)) \<noteq> ''high''
   \<and> Math_ceil (of_int (setHoursEnd (fixedOffset 0) 0 - setHoursStart (fixedOffset 0) 0)
                   / of_int msPerDay) = 1"
proof -
  have zero: "Math_ceil (of_int (clockShift (fixedOffset 0) n d - 1) / of_int msPerDay) = 0"
    for n d
    unfolding clockShift_fixedOffset
    by (rule Math_ceil_within_day(1)) (simp_all add: msPerDay_def)
  have days: "localDay (fixedOffset 0) (2 * msPerDay) - localDay (fixedOffset 0) 0 = 2"
             "localDay (fixedOffset 0) 0 - localDay (fixedOffset 0) 0 = 0"
    by (simp_all add: localDay_def fixedOffset_def msPerDay_def)
  have clock: "e_tz (exampleEnv 0 ''a1'') = fixedOffset 0" "e_now (exampleEnv 0 ''a1'') = 0"
    by (simp_all add: exampleEnv_def)
  have "calculatePriorityFromDeadline (exampleEnv 0 ''a1'') (Some (2 * msPerDay)) = ''medium''"
    unfolding priority_by_diffDays clock diffDays_eq zero days by simp
  moreover have "Math_ceil (of_int (setHoursEnd (fixedOffset 0) 0 - setHoursStart (fixedOffset 0) 0)
                   / of_int msPerDay) = 1"
    unfolding diffDays_eq zero days by simp
  ultimately show ?thesis using days(1) by simp
qed

section \<open>Rounding to a double\<close>










lemma err_0 [simp]: "err 0 = 0"
  by (simp add: err_def)








lemma wholeNumber_iff: "wholeNumber x = (\<exists>m. x = of_int m)"
  unfolding wholeNumber_def by (metis floor_of_int)

lemma wholeNumber_0 [simp]: "wholeNumber 0"
  by (simp add: wholeNumber_def)





section \<open>Rubric totals\<close>
















section \<open>Defaults of a new assignment\<close>

text \<open>
  Claim C10. When a teacher's request to create an assignment passes validation, the
  assignment is created with status \<open>'published'\<close> if the request gives no status, with
  late submission allowed if the request does not say, and with 3 attempts if the request
  gives no number; a value the request gives is kept.
\<close>

theorem assignment_defaults:
  assumes "u_role user = ''teacher''"
      and "truthy (ca_title data)" "truthy (ca_description data)" "truthy (ca_difficulty data)"
      and "ca_dueDate data = Some dueDate"
  shows "\<exists>created db'.
           createAssignment env user data db =
             (Success 201 (Some created) (Some ''Assignment created successfully''), db')
           \<and> map_of (db_assignments db') (e_newId env) = Some created
           \<and> a_status created =
               (case ca_status data of
                  None \<Rightarrow> ''published''
                | Some status \<Rightarrow> if status = [] then ''published'' else status)
           \<and> a_allowLateSubmission created =
               (case ca_allowLateSubmission data of None \<Rightarrow> True | Some allow \<Rightarrow> allow)
           \<and> a_maxAttempts created =
               (case ca_maxAttempts data of None \<Rightarrow> 3 | Some n \<Rightarrow> n)"
  using createAssignment_accepted [OF assms, of env db]
  by (simp add: update_conv' newAssignmentDoc_def Let_def split: option.splits)

theorem assignment_defaults_witness:
  "u_role teacher = ''teacher''
   \<and> ca_status (essayRequest None) = None
   \<and> ca_allowLateSubmission (essayRequest None) = None
   \<and> ca_maxAttempts (essayRequest None) = None
   \<and> (\<exists>created db'.
         createAssignment (exampleEnv 0 ''a1'') teacher (essayRequest None) emptyDb =
           (Success 201 (Some created) (Some ''Assignment created successfully''), db')
         \<and> map_of (db_assignments db') ''a1'' = Some created
         \<and> a_status created = ''published'' \<and> a_status created \<noteq> ''draft''
         \<and> a_allowLateSubmission created
         \<and> a_maxAttempts created = 3)"
proof -
  have pre: "u_role teacher = ''teacher''"
    "truthy (ca_title (essayRequest None))" "truthy (ca_description (essayRequest None))"
    "truthy (ca_difficulty (essayRequest None))"
    "ca_dueDate (essayRequest None) = Some (Some (10 * msPerDay))"
    by (simp_all add: teacher_def essayRequest_def)
  have absent: "ca_status (essayRequest None) = None"
    "ca_allowLateSubmission (essayRequest None) = None"
    "ca_maxAttempts (essayRequest None) = None"
    by (simp_all add: essayRequest_def)
  have newId: "e_newId (exampleEnv 0 ''a1'') = ''a1''"
    by (simp add: exampleEnv_def)
  have "\<exists>created db'.
         createAssignment (exampleEnv 0 ''a1'') teacher (essayRequest None) emptyDb =
           (Success 201 (Some created) (Some ''Assignment created successfully''), db')
         \<and> map_of (db_assignments db') ''a1'' = Some created
         \<and> a_status created = ''published'' \<and> a_status created \<noteq> ''draft''
         \<and> a_allowLateSubmission created
         \<and> a_maxAttempts created = 3"
    using assignment_defaults [OF pre, of "exampleEnv 0 ''a1''" emptyDb]
    unfolding absent newId option.case by force
  then show ?thesis using pre(1) absent by blast
qed

section \<open>Publishing a grade\<close>

text \<open>
  Claim C4, as the code has it. When the teacher who owns a grade publishes it and the grade
  is already \<open>'finalized'\<close>, the request fails with status 400 and the message
  \<open>Grade is already published\<close>, and the store is left as it was; 400 is the status of a
  validation error, not the 409 of a conflict. When the grade is not \<open>'finalized'\<close>, the
  request succeeds, the status of the grade becomes \<open>'finalized'\<close> and the publish time is
  set to the current time; nothing else in the store changes.
\<close>

theorem publish_grade:
  assumes "u_role user = ''teacher''"
      and "map_of (db_grades db) docId = Some g"
      and "g_teacherId g = u_uid user"
  shows "(if g_status g = ''finalized''
          then publishGrade env user docId db = (Failure 400 ''Grade is already published'', db)
             \<and> failsWith (fst (publishGrade env user docId db)) ValidationError
          else fst (publishGrade env user docId db)
                 = Success 200 None (Some ''Grade published successfully'')
             \<and> map_of (db_grades (snd (publishGrade env user docId db)))
                 = (map_of (db_grades db))
                     (docId \<mapsto> g\<lparr>g_status := ''finalized'', g_publishedAt := Some (e_now env)\<rparr>)
             \<and> db_assignments (snd (publishGrade env user docId db)) = db_assignments db
             \<and> db_submissions (snd (publishGrade env user docId db)) = db_submissions db
             \<and> db_gradeReviewRequests (snd (publishGrade env user docId db))
                 = db_gradeReviewRequests db)"
  using assms
  by (simp add: publishGrade_def requireRoleFails_def errorKind_def map_of_map_entry)

theorem publish_grade_witness:
  "u_role teacher = ''teacher''
   \<and> map_of (db_grades (world (essay True 3) [] [(''g1'', mark ''draft'')] [])) ''g1''
       = Some (mark ''draft'')
   \<and> g_teacherId (mark ''draft'') = u_uid teacher
   \<and> g_status (mark ''draft'') \<noteq> ''finalized''
   \<and> fst (publishGrade (exampleEnv 5000 ''x'') teacher ''g1''
             (world (essay True 3) [] [(''g1'', mark ''draft'')] []))
       = Success 200 None (Some ''Grade published successfully'')
   \<and> map_of (db_grades (snd (publishGrade (exampleEnv 5000 ''x'') teacher ''g1''
                                (world (essay True 3) [] [(''g1'', mark ''draft'')] [])))) ''g1''
       = Some ((mark ''draft'')\<lparr>g_status := ''finalized'', g_publishedAt := Some 5000\<rparr>)
   \<and> g_status (mark ''finalized'') = ''finalized''
   \<and> publishGrade (exampleEnv 5000 ''x'') teacher ''g1''
        (world (essay True 3) [] [(''g1'', mark ''finalized'')] [])
       = (Failure 400 ''Grade is already published'',
          world (essay True 3) [] [(''g1'', mark ''finalized'')] [])"
proof -
  let ?env = "exampleEnv 5000 ''x''"
  have t: "u_role teacher = ''teacher''" by (simp add: teacher_def)
  have d: "map_of (db_grades (world (essay True 3) [] [(''g1'', mark ''draft'')] [])) ''g1''
             = Some (mark ''draft'')"
          "g_teacherId (mark ''draft'') = u_uid teacher"
          "g_status (mark ''draft'') \<noteq> ''finalized''"
    by (simp_all add: world_def mark_def teacher_def)
  have f: "map_of (db_grades (world (essay True 3) [] [(''g1'', mark ''finalized'')] [])) ''g1''
             = Some (mark ''finalized'')"
          "g_teacherId (mark ''finalized'') = u_uid teacher"
          "g_status (mark ''finalized'') = ''finalized''"
    by (simp_all add: world_def mark_def teacher_def)
  have now: "e_now ?env = 5000" by (simp add: exampleEnv_def)
  show ?thesis
    using t d f publish_grade [OF t d(1) d(2), of ?env] publish_grade [OF t f(1) f(2), of ?env]
    by (simp add: now)
qed

text \<open>
  Claim C4 as the specification words it, with a failure of the kind \<open>Conflict\<close>, fails
  on this instance: publishing a grade that is already \<open>'finalized'\<close> answers 400.
\<close>

theorem publish_finalized_counterexample:
  "fst (publishGrade (exampleEnv 5000 ''x'') teacher ''g1''
          (world (essay True 3) [(''sub1'', handedIn 1 (Some ''g1''))] [(''g1'', mark ''finalized'')] []))
     = Failure 400 ''Grade is already published''
   \<and> \<not> failsWith
         (fst (publishGrade (exampleEnv 5000 ''x'') teacher ''g1''
                 (world (essay True 3) [(''sub1'', handedIn 1 (Some ''g1''))]
                    [(''g1'', mark ''finalized'')] [])))
         Conflict"
  by (simp add: publishGrade_def requireRoleFails_def teacher_def world_def mark_def errorKind_def)

section \<open>Responding to a review request\<close>

text \<open>
  Claim C8, as the code has it. When the teacher a review request is addressed to answers
  it with \<open>'accepted'\<close> or \<open>'declined'\<close> and the request is \<open>'pending'\<close>, the request
  succeeds, the status becomes the answer and the response time is set to the current time;
  nothing else in the store changes. When the request is not \<open>'pending'\<close>, the answer fails
  with status 400 and the message \<open>Review request has already been responded to\<close>, and
  the store is left as it was, so \<open>'accepted'\<close> and \<open>'declined'\<close> are terminal; 400 is the
  status of a validation error, not the 409 of a conflict.
\<close>

theorem respond_to_review_request:
  assumes "u_role user = ''teacher''"
      and "rd_status data = Some answer" "answer = ''accepted'' \<or> answer = ''declined''"
      and "map_of (db_gradeReviewRequests db) docId = Some request"
      and "rr_teacherId request = u_uid user"
  shows "(if rr_status request = ''pending''
          then fst (respondToReviewRequest env user docId data db)
                 = Success 200 None (Some (''Review request '' @ answer))
             \<and> map_of (db_gradeReviewRequests (snd (respondToReviewRequest env user docId data db)))
                 = (map_of (db_gradeReviewRequests db))
                     (docId \<mapsto> request\<lparr>rr_status := answer,
                                       rr_respondedAt := Some (e_now env),
                                       rr_responseMessage := spreadIf (rd_message data)\<rparr>)
             \<and> db_assignments (snd (respondToReviewRequest env user docId data db))
                 = db_assignments db
             \<and> db_submissions (snd (respondToReviewRequest env user docId data db))
                 = db_submissions db
             \<and> db_grades (snd (respondToReviewRequest env user docId data db)) = db_grades db
          else respondToReviewRequest env user docId data db
                 = (Failure 400 ''Review request has already been responded to'', db)
             \<and> failsWith (fst (respondToReviewRequest env user docId data db)) ValidationError)"
  using assms
  by (auto simp: respondToReviewRequest_def requireRoleFails_def errorKind_def map_of_map_entry)


theorem respond_to_review_request_witness:
  "u_role teacher = ''teacher''
   \<and> map_of (db_gradeReviewRequests (world (essay True 3) [] [] [(''r1'', review ''pending'')])) ''r1''
       = Some (review ''pending'')
   \<and> rr_teacherId (review ''pending'') = u_uid teacher
   \<and> fst (respondToReviewRequest (exampleEnv 5000 ''x'') teacher ''r1''
             \<lparr>rd_status = Some ''accepted'', rd_message = None\<rparr>
             (world (essay True 3) [] [] [(''r1'', review ''pending'')]))
       = Success 200 None (Some ''Review request accepted'')
   \<and> map_of (db_gradeReviewRequests
               (snd (respondToReviewRequest (exampleEnv 5000 ''x'') teacher ''r1''
                       \<lparr>rd_status = Some ''accepted'', rd_message = None\<rparr>
                       (world (essay True 3) [] [] [(''r1'', review ''pending'')])))) ''r1''
       = Some ((review ''pending'')\<lparr>rr_status := ''accepted'', rr_respondedAt := Some 5000\<rparr>)
   \<and> respondToReviewRequest (exampleEnv 5000 ''x'') teacher ''r1''
        \<lparr>rd_status = Some ''declined'', rd_message = None\<rparr>
        (world (essay True 3) [] [] [(''r1'', review ''accepted'')])
       = (Failure 400 ''Review request has already been responded to'',
          world (essay True 3) [] [] [(''r1'', review ''accepted'')])"
proof -
  let ?env = "exampleEnv 5000 ''x''"
  let ?accept = "\<lparr>rd_status = Some ''accepted'', rd_message = None\<rparr>"
  let ?decline = "\<lparr>rd_status = Some ''declined'', rd_message = None\<rparr>"
  have t: "u_role teacher = ''teacher''" by (simp add: teacher_def)
  have a: "rd_status ?accept = Some ''accepted''"
          "''accepted'' = ''accepted'' \<or> ''accepted'' = ''declined''"
    by simp_all
  have d: "rd_status ?decline = Some ''declined''"
          "''declined'' = ''accepted'' \<or> ''declined'' = ''declined''"
    by simp_all
  have p: "map_of (db_gradeReviewRequests (world (essay True 3) [] [] [(''r1'', review ''pending'')]))
             ''r1'' = Some (review ''pending'')"
          "rr_teacherId (review ''pending'') = u_uid teacher"
          "rr_status (review ''pending'') = ''pending''"
    by (simp_all add: world_def review_def teacher_def)
  have r: "map_of (db_gradeReviewRequests (world (essay True 3) [] [] [(''r1'', review ''accepted'')]))
             ''r1'' = Some (review ''accepted'')"
          "rr_teacherId (review ''accepted'') = u_uid teacher"
          "rr_status (review ''accepted'') \<noteq> ''pending''"
    by (simp_all add: world_def review_def teacher_def)
  have now: "e_now ?env = 5000" by (simp add: exampleEnv_def)
  have same: "(review ''pending'')\<lparr>rr_status := ''accepted'', rr_respondedAt := Some 5000,
                                  rr_responseMessage := None\<rparr>
              = (review ''pending'')\<lparr>rr_status := ''accepted'', rr_respondedAt := Some 5000\<rparr>"
    by (simp add: review_def)
  show ?thesis
    using t p r
      respond_to_review_request [OF t a p(1) p(2), of ?env]
      respond_to_review_request [OF t d r(1) r(2), of ?env]
    by (simp add: now same)
qed

text \<open>
  Claim C8 as the specification words it, with a failure of the kind \<open>Conflict\<close>, fails
  on this instance: declining a request that is already \<open>'accepted'\<close> answers 400.
\<close>

theorem respond_twice_counterexample:
  "fst (respondToReviewRequest (exampleEnv 5000 ''x'') teacher ''r1''
          \<lparr>rd_status = Some ''declined'', rd_message = None\<rparr>
          (world (essay True 3) [] [] [(''r1'', review ''accepted'')]))
     = Failure 400 ''Review request has already been responded to''
   \<and> \<not> failsWith
         (fst (respondToReviewRequest (exampleEnv 5000 ''x'') teacher ''r1''
                 \<lparr>rd_status = Some ''declined'', rd_message = None\<rparr>
                 (world (essay True 3) [] [] [(''r1'', review ''accepted'')])))
         Conflict"
  by (simp add: respondToReviewRequest_def requireRoleFails_def teacher_def world_def review_def
        errorKind_def)

section \<open>Who may see a grade\<close>

lemma set_chunkLoop: "set (concat (chunkLoop ids i)) \<subseteq> set ids"
proof (induction ids i rule: chunkLoop.induct)
  case (1 ids i)
  show ?case
  proof (cases "i < length ids")
    case True
    then show ?thesis
      using 1 set_slice [of ids "int i" "int i + 10"]
      by (subst chunkLoop.simps) auto
  next
    case False
    then show ?thesis by (subst chunkLoop.simps) simp
  qed
qed

lemma set_paginate: "set (pr_data (paginate xs q)) \<subseteq> set xs"
  unfolding paginate_data
  by (meson order_trans set_take_subset set_drop_subset)

lemma gradesOfChunks_member:
  assumes "gr \<in> set (gradesOfChunks chunks (Some st) db)"
  shows "g_status gr = st \<and> g_submissionId gr \<in> set (concat chunks)
         \<and> (\<exists>docId g. (docId, g) \<in> set (db_grades db) \<and> gr = g\<lparr>g_id := docId\<rparr>)"
  using assms by (auto simp: gradesOfChunks_def)

lemma student_grades_member:
  assumes "u_role user = ''student''"
      and "getGrades user query status db = Success code (Some page) msg"
      and "gr \<in> set (pr_data page)"
  shows "g_status gr = ''finalized''
         \<and> (\<exists>sub. (g_submissionId gr, sub) \<in> set (db_submissions db)
                    \<and> s_studentId sub = u_uid user)
         \<and> (\<exists>docId g. (docId, g) \<in> set (db_grades db) \<and> gr = g\<lparr>g_id := docId\<rparr>)"
proof -
  define ids where
    "ids = map fst (filter (\<lambda>(docId, s). s_studentId s = u_uid user) (db_submissions db))"
  define grades where
    "grades = (if length ids > 0 then gradesOfChunks (chunkLoop ids 0) (Some ''finalized'') db
               else [])"
  have page: "page = paginate (sort_key (\<lambda>g. - gradedAtTime g) grades) query"
    using assms(1,2) by (auto simp: getGrades_def Let_def ids_def grades_def)
  have "gr \<in> set grades"
    using assms(3) set_paginate [of "sort_key (\<lambda>g. - gradedAtTime g) grades" query]
    unfolding page by auto
  then have mem: "gr \<in> set (gradesOfChunks (chunkLoop ids 0) (Some ''finalized'') db)"
    by (simp add: grades_def split: if_splits)
  note m = gradesOfChunks_member [OF mem]
  have "g_submissionId gr \<in> set ids"
    using m set_chunkLoop [of ids 0] by auto
  then have "\<exists>sub. (g_submissionId gr, sub) \<in> set (db_submissions db)
                    \<and> s_studentId sub = u_uid user"
    by (auto simp: ids_def)
  with m show ?thesis by blast
qed

lemma getGrade_student:
  assumes "u_role user = ''student''"
      and "map_of (db_grades db) docId = Some g"
      and "map_of (db_submissions db) (g_submissionId g) = Some sub"
  shows "(getGrade user docId db = Success 200 (Some (g\<lparr>g_id := docId\<rparr>)) None)
           = (g_status g = ''finalized'' \<and> s_studentId sub = u_uid user)"
    and "(getGrade user docId db = Failure 403 ''Access denied'')
           = (\<not> (g_status g = ''finalized'' \<and> s_studentId sub = u_uid user))"
  using assms by (auto simp: getGrade_def Let_def)

lemma getGrades_student:
  assumes "u_role user = ''student''"
  shows "\<exists>page. getGrades user query status db = Success 200 (Some page) None
            \<and> (\<forall>gr \<in> set (pr_data page).
                  g_status gr = ''finalized''
                  \<and> (\<exists>own. (g_submissionId gr, own) \<in> set (db_submissions db)
                             \<and> s_studentId own = u_uid user)
                  \<and> (\<exists>gradeId stored. (gradeId, stored) \<in> set (db_grades db)
                                        \<and> gr = stored\<lparr>g_id := gradeId\<rparr>))"
proof -
  obtain page where page: "getGrades user query status db = Success 200 (Some page) None"
    by (simp add: getGrades_def Let_def)
  have "\<forall>gr \<in> set (pr_data page).
                  g_status gr = ''finalized''
                  \<and> (\<exists>own. (g_submissionId gr, own) \<in> set (db_submissions db)
                             \<and> s_studentId own = u_uid user)
                  \<and> (\<exists>gradeId stored. (gradeId, stored) \<in> set (db_grades db)
                                        \<and> gr = stored\<lparr>g_id := gradeId\<rparr>)"
    using student_grades_member [OF assms page] by blast
  with page show ?thesis by blast
qed

text \<open>
  Claim C6. When a student fetches a grade that exists and whose submission exists, the
  grade is returned iff it is \<open>'finalized'\<close> and the submission is the student's own;
  otherwise the answer is 403, the status of \<open>Forbidden\<close>. The grades a student is listed
  are all \<open>'finalized'\<close>, each is a stored grade, and each belongs to a submission of that
  student.
\<close>

theorem student_sees_only_own_finalized_grades:
  "(u_role user = ''student''
      \<and> map_of (db_grades db) docId = Some g
      \<and> map_of (db_submissions db) (g_submissionId g) = Some sub
    \<longrightarrow> (getGrade user docId db = Success 200 (Some (g\<lparr>g_id := docId\<rparr>)) None)
           = (g_status g = ''finalized'' \<and> s_studentId sub = u_uid user)
        \<and> (getGrade user docId db = Failure 403 ''Access denied'')
           = (\<not> (g_status g = ''finalized'' \<and> s_studentId sub = u_uid user)))
   \<and> failsWith (Failure 403 ''Access denied'' :: Grade Reply) Forbidden
   \<and> (u_role user = ''student''
    \<longrightarrow> (\<exists>page. getGrades user query status db = Success 200 (Some page) None
            \<and> (\<forall>gr \<in> set (pr_data page).
                  g_status gr = ''finalized''
                  \<and> (\<exists>own. (g_submissionId gr, own) \<in> set (db_submissions db)
                             \<and> s_studentId own = u_uid user)
                  \<and> (\<exists>gradeId stored. (gradeId, stored) \<in> set (db_grades db)
                                        \<and> gr = stored\<lparr>g_id := gradeId\<rparr>))))"
proof -
  have forbidden: "failsWith (Failure 403 ''Access denied'' :: Grade Reply) Forbidden"
    by (simp add: errorKind_def)
  from forbidden getGrade_student [of user db docId g sub]
       getGrades_student [of user query status db]
  show ?thesis by blast
qed

theorem student_sees_only_own_finalized_grades_witness:
  "u_role student = ''student''
   \<and> getGrade student ''g1'' classDb = Success 200 (Some (mark ''finalized'')) None
   \<and> getGrade student ''g2'' classDb = Failure 403 ''Access denied''
   \<and> getGrade student ''g3'' classDb = Failure 403 ''Access denied''
   \<and> map_option (map g_id \<circ> pr_data)
        (replyData (getGrades student \<lparr>q_page = None, q_limit = None\<rparr> None classDb))
       = Some [''g1'']"
proof -
  have s: "u_role student = ''student''" "u_uid student = ''s1''"
    by (simp_all add: student_def)
  have g1: "map_of (db_grades classDb) ''g1'' = Some (mark ''finalized'')"
           "map_of (db_submissions classDb) (g_submissionId (mark ''finalized''))
              = Some (handedIn 1 (Some ''g1''))"
           "g_status (mark ''finalized'') = ''finalized''"
           "s_studentId (handedIn 1 (Some ''g1'')) = ''s1''"
           "(mark ''finalized'')\<lparr>g_id := ''g1''\<rparr> = mark ''finalized''"
    by (simp_all add: classDb_def world_def mark_def handedIn_def)
  have g2: "map_of (db_grades classDb) ''g2''
              = Some ((mark ''finalized'')\<lparr>g_submissionId := ''sub2''\<rparr>)"
           "map_of (db_submissions classDb)
                (g_submissionId ((mark ''finalized'')\<lparr>g_submissionId := ''sub2''\<rparr>))
              = Some ((handedIn 1 (Some ''g2''))\<lparr>s_studentId := ''s2''\<rparr>)"
           "s_studentId ((handedIn 1 (Some ''g2''))\<lparr>s_studentId := ''s2''\<rparr>) \<noteq> ''s1''"
    by (simp_all add: classDb_def world_def mark_def handedIn_def)
  have g3: "map_of (db_grades classDb) ''g3'' = Some (mark ''draft'')"
           "map_of (db_submissions classDb) (g_submissionId (mark ''draft''))
              = Some (handedIn 1 (Some ''g1''))"
           "g_status (mark ''draft'') \<noteq> ''finalized''"
    by (simp_all add: classDb_def world_def mark_def handedIn_def)
  note i1 = student_sees_only_own_finalized_grades
              [where user = student and db = classDb and docId = "''g1''"
                 and g = "mark ''finalized''" and sub = "handedIn 1 (Some ''g1'')"]
  note i2 = student_sees_only_own_finalized_grades
              [where user = student and db = classDb and docId = "''g2''"
                 and g = "(mark ''finalized'')\<lparr>g_submissionId := ''sub2''\<rparr>"
                 and sub = "(handedIn 1 (Some ''g2''))\<lparr>s_studentId := ''s2''\<rparr>"]
  note i3 = student_sees_only_own_finalized_grades
              [where user = student and db = classDb and docId = "''g3''"
                 and g = "mark ''draft''" and sub = "handedIn 1 (Some ''g1'')"]
  have a1: "getGrade student ''g1'' classDb = Success 200 (Some (mark ''finalized'')) None"
    using i1 s g1 by simp
  have a2: "getGrade student ''g2'' classDb = Failure 403 ''Access denied''"
    using i2 s g2 by simp
  have a3: "getGrade student ''g3'' classDb = Failure 403 ''Access denied''"
    using i3 s g3 by simp
  have listing: "map_option (map g_id \<circ> pr_data)
        (replyData (getGrades student \<lparr>q_page = None, q_limit = None\<rparr> None classDb))
       = Some [''g1'']"
    by (simp add: getGrades_def student_def classDb_def world_def handedIn_def mark_def
          gradesOfChunks_def chunkLoop.simps slice_def paginate_def getPaginationParams_def
          orDefault_def buildPaginatedResponse_def gradedAtTime_def Let_def)
  from s(1) a1 a2 a3 listing show ?thesis by blast
qed

section \<open>Submitting\<close>

lemma map_entry_stored:
  assumes "map_of al k = Some v" "f v = g v"
  shows "AList.map_entry k f al = AList.map_entry k g al"
  using assms by (induction al) (auto split: if_splits)

lemma existingSubmission_Some:
  assumes "existingSubmission aid uid db = Some (eid, ex)"
  shows "(eid, ex) \<in> set (db_submissions db) \<and> s_assignmentId ex = aid \<and> s_studentId ex = uid"
  using assms unfolding existingSubmission_def find_Some_iff
  by (auto simp: in_set_conv_nth)

lemma existingSubmission_none:
  assumes "\<forall>(docId, s)\<in>set (db_submissions db).
             \<not> (s_assignmentId s = aid \<and> s_studentId s = uid)"
  shows "existingSubmission aid uid db = None"
  using assms unfolding existingSubmission_def find_None_iff by auto

lemma existingSubmission_first:
  assumes "db_submissions db = earlier @ (eid, ex) # later"
      and "\<forall>(docId, s)\<in>set earlier. \<not> (s_assignmentId s = aid \<and> s_studentId s = uid)"
      and "s_assignmentId ex = aid" "s_studentId ex = uid"
  shows "existingSubmission aid uid db = Some (eid, ex)"
  using assms(2-) unfolding existingSubmission_def assms(1)
  by (induction earlier) auto

lemma existingSubmission_stored:
  assumes "existingSubmission aid uid db = Some (eid, ex)"
  shows "\<exists>stored. map_of (db_submissions db) eid = Some stored"
proof -
  have "(eid, ex) \<in> set (db_submissions db)"
    using existingSubmission_Some [OF assms] by simp
  then have "eid \<in> fst ` set (db_submissions db)" by force
  then have "map_of (db_submissions db) eid \<noteq> None"
    by (simp add: map_of_eq_None_iff)
  then show ?thesis by blast
qed

lemma existingSubmission_distinct:
  assumes "existingSubmission aid uid db = Some (eid, ex)"
      and "distinct (map fst (db_submissions db))"
  shows "map_of (db_submissions db) eid = Some ex"
  using existingSubmission_Some [OF assms(1)] assms(2) by simp

lemma createSubmission_late_refused:
  assumes "u_role user = ''student''"
      and "cs_assignmentId data = Some aid" "aid \<noteq> []"
      and "truthy (cs_textContent data) \<or> truthy (cs_fileUrl data)"
      and "cs_integrityConfirmed data"
      and "map_of (db_assignments db) aid = Some a"
      and "a_status a = ''published''"
      and "isOverdue env (a_dueDate a)" "\<not> a_allowLateSubmission a"
  shows "createSubmission env user data db =
           (Failure 400 ''Late submissions are not allowed for this assignment'', db)"
  using assms by (auto simp: createSubmission_def requireRoleFails_def Let_def)

lemma createSubmission_first:
  assumes "u_role user = ''student''"
      and "cs_assignmentId data = Some aid" "aid \<noteq> []"
      and "truthy (cs_textContent data) \<or> truthy (cs_fileUrl data)"
      and "cs_integrityConfirmed data"
      and "map_of (db_assignments db) aid = Some a"
      and "a_status a = ''published''"
      and "\<not> (isOverdue env (a_dueDate a) \<and> \<not> a_allowLateSubmission a)"
      and "existingSubmission aid (u_uid user) db = None"
  shows "createSubmission env user data db =
           (Success 201 (Some (newSubmissionDoc env user data (isOverdue env (a_dueDate a))))
              (Some ''Submission created successfully''),
            db\<lparr>db_submissions :=
                 AList.update (e_newId env)
                   (newSubmissionDoc env user data (isOverdue env (a_dueDate a)))
                   (db_submissions db)\<rparr>)"
  using assms by (auto simp: createSubmission_def requireRoleFails_def Let_def)

lemma createSubmission_exhausted:
  assumes "u_role user = ''student''"
      and "cs_assignmentId data = Some aid" "aid \<noteq> []"
      and "truthy (cs_textContent data) \<or> truthy (cs_fileUrl data)"
      and "cs_integrityConfirmed data"
      and "map_of (db_assignments db) aid = Some a"
      and "a_status a = ''published''"
      and "\<not> (isOverdue env (a_dueDate a) \<and> \<not> a_allowLateSubmission a)"
      and "existingSubmission aid (u_uid user) db = Some (eid, ex)"
      and "of_int (s_currentAttempt ex) \<ge> a_maxAttempts a"
  shows "createSubmission env user data db =
           (Failure 400
              (''Maximum attempts ('' @ numberToString env (a_maxAttempts a) @ '') reached''),
            db)"
  using assms by (auto simp: createSubmission_def requireRoleFails_def Let_def)

lemma createSubmission_again:
  assumes "u_role user = ''student''"
      and "cs_assignmentId data = Some aid" "aid \<noteq> []"
      and "truthy (cs_textContent data) \<or> truthy (cs_fileUrl data)"
      and "cs_integrityConfirmed data"
      and "map_of (db_assignments db) aid = Some a"
      and "a_status a = ''published''"
      and "\<not> (isOverdue env (a_dueDate a) \<and> \<not> a_allowLateSubmission a)"
      and "existingSubmission aid (u_uid user) db = Some (eid, ex)"
      and "of_int (s_currentAttempt ex) < a_maxAttempts a"
      and "map_of (db_submissions db) eid = Some stored"
  shows "createSubmission env user data db =
           (Success 200
              (Some ((submissionUpdateData (e_now env) (isOverdue env (a_dueDate a)) data ex stored)
                       \<lparr>s_id := eid\<rparr>))
              (Some ''Submission updated successfully''),
            db\<lparr>db_submissions :=
                 AList.map_entry eid
                   (submissionUpdateData (e_now env) (isOverdue env (a_dueDate a)) data ex)
                   (db_submissions db)\<rparr>)"
  using assms
  by (auto simp: createSubmission_def requireRoleFails_def Let_def map_of_map_entry)


text \<open>
  Claim C2. Take a student's well-formed submission to a published assignment. When the due
  date has passed, that is, when the current time is strictly after the end of the due
  day, and the assignment does not allow late submission, the request fails with status
  400, the status of \<open>ValidationError\<close>, and the store is left as it was. In every other
  case, provided the attempts of an earlier submission are not used up, the request
  succeeds, and the submission it answers with is the stored one; its status is \<open>'late'\<close>
  when the due date has passed and \<open>'submitted'\<close> when the current time is before or at
  the end of the due day.
\<close>

theorem late_submission_handling:
  assumes "u_role user = ''student''"
      and "cs_assignmentId data = Some aid" "aid \<noteq> []"
      and "truthy (cs_textContent data) \<or> truthy (cs_fileUrl data)"
      and "cs_integrityConfirmed data"
      and "map_of (db_assignments db) aid = Some a"
      and "a_status a = ''published''"
      and "a_dueDate a = Some due"
  shows "(let overdue = (setHoursEnd (e_tz env) due < e_now env);
              r = createSubmission env user data db
          in if overdue \<and> \<not> a_allowLateSubmission a
             then r = (Failure 400 ''Late submissions are not allowed for this assignment'', db)
                  \<and> failsWith (fst r) ValidationError
             else (case existingSubmission aid (u_uid user) db of
                     None \<Rightarrow> True
                   | Some (eid, ex) \<Rightarrow> of_int (s_currentAttempt ex) < a_maxAttempts a)
                  \<longrightarrow> succeeds (fst r)
                      \<and> (\<exists>docId doc. map_of (db_submissions (snd r)) docId = Some doc
                            \<and> replyData (fst r) = Some (doc\<lparr>s_id := docId\<rparr>)
                            \<and> s_status doc = (if overdue then ''late'' else ''submitted'')))"
proof -
  define overdue where "overdue = (setHoursEnd (e_tz env) due < e_now env)"
  define r where "r = createSubmission env user data db"
  have over: "isOverdue env (a_dueDate a) = overdue"
    using assms(8) by (simp add: isOverdue_def overdue_def)
  note pre = assms(1-7)
  show ?thesis
  proof (cases "overdue \<and> \<not> a_allowLateSubmission a")
    case True
    then have "r = (Failure 400 ''Late submissions are not allowed for this assignment'', db)"
      unfolding r_def using createSubmission_late_refused [OF pre, of env] over by simp
    then show ?thesis
      using True unfolding Let_def overdue_def [symmetric] r_def [symmetric]
      by (simp add: errorKind_def)
  next
    case False
    then have allowed: "\<not> (isOverdue env (a_dueDate a) \<and> \<not> a_allowLateSubmission a)"
      using over by simp
    have goal: "succeeds (fst r)
                \<and> (\<exists>docId doc. map_of (db_submissions (snd r)) docId = Some doc
                      \<and> replyData (fst r) = Some (doc\<lparr>s_id := docId\<rparr>)
                      \<and> s_status doc = (if overdue then ''late'' else ''submitted''))"
      if left: "case existingSubmission aid (u_uid user) db of
                  None \<Rightarrow> True
                | Some (eid, ex) \<Rightarrow> of_int (s_currentAttempt ex) < a_maxAttempts a"
    proof (cases "existingSubmission aid (u_uid user) db")
      case None
      let ?new = "newSubmissionDoc env user data (isOverdue env (a_dueDate a))"
      have r: "r = (Success 201 (Some ?new) (Some ''Submission created successfully''),
                    db\<lparr>db_submissions := AList.update (e_newId env) ?new (db_submissions db)\<rparr>)"
        unfolding r_def by (rule createSubmission_first [OF pre allowed None])
      have "map_of (db_submissions (snd r)) (e_newId env) = Some ?new"
        by (simp add: r update_conv')
      moreover have "replyData (fst r) = Some (?new\<lparr>s_id := e_newId env\<rparr>)"
        by (simp add: r newSubmissionDoc_def Let_def)
      moreover have "s_status ?new = (if overdue then ''late'' else ''submitted'')"
        by (simp add: newSubmissionDoc_def Let_def over)
      moreover have "succeeds (fst r)" by (simp add: r)
      ultimately show ?thesis by blast
    next
      case (Some found)
      obtain eid ex where found: "found = (eid, ex)" by (cases found)
      have ex: "existingSubmission aid (u_uid user) db = Some (eid, ex)"
        using Some found by simp
      have less: "of_int (s_currentAttempt ex) < a_maxAttempts a"
        using left ex by simp
      obtain stored where stored: "map_of (db_submissions db) eid = Some stored"
        using existingSubmission_stored [OF ex] by blast
      let ?f = "submissionUpdateData (e_now env) (isOverdue env (a_dueDate a)) data ex"
      have r: "r = (Success 200 (Some ((?f stored)\<lparr>s_id := eid\<rparr>))
                      (Some ''Submission updated successfully''),
                    db\<lparr>db_submissions := AList.map_entry eid ?f (db_submissions db)\<rparr>)"
        unfolding r_def by (rule createSubmission_again [OF pre allowed ex less stored])
      have "map_of (db_submissions (snd r)) eid = Some (?f stored)"
        by (simp add: r map_of_map_entry stored)
      moreover have "replyData (fst r) = Some ((?f stored)\<lparr>s_id := eid\<rparr>)"
        by (simp add: r)
      moreover have "s_status (?f stored) = (if overdue then ''late'' else ''submitted'')"
        by (simp add: submissionUpdateData_def Let_def over)
      moreover have "succeeds (fst r)" by (simp add: r)
      ultimately show ?thesis by blast
    qed
    show ?thesis
      unfolding Let_def overdue_def [symmetric] r_def [symmetric] if_not_P [OF False]
      using goal by blast
  qed
qed


theorem late_submission_handling_witness:
  "u_role student = ''student''
   \<and> a_dueDate (essay False 3) = Some msPerDay
   \<and> setHoursEnd (fixedOffset 0) msPerDay = 2 * msPerDay - 1
   \<and> createSubmission (exampleEnv (2 * msPerDay) ''sub1'') student essayText
        (world (essay False 3) [] [] [])
       = (Failure 400 ''Late submissions are not allowed for this assignment'',
          world (essay False 3) [] [] [])
   \<and> succeeds (fst (createSubmission (exampleEnv (2 * msPerDay) ''sub1'') student essayText
                       (world (essay True 3) [] [] [])))
   \<and> map_option s_status
        (replyData (fst (createSubmission (exampleEnv (2 * msPerDay) ''sub1'') student essayText
                           (world (essay True 3) [] [] []))))
       = Some ''late''
   \<and> map_option s_status
        (replyData (fst (createSubmission (exampleEnv (2 * msPerDay - 1) ''sub1'') student essayText
                           (world (essay True 3) [] [] []))))
       = Some ''submitted''"
proof -
  let ?late = "exampleEnv (2 * msPerDay) ''sub1''"
  let ?atEnd = "exampleEnv (2 * msPerDay - 1) ''sub1''"
  have s: "u_role student = ''student''" by (simp add: student_def)
  have d: "cs_assignmentId essayText = Some ''a1''" "''a1'' \<noteq> []"
          "truthy (cs_textContent essayText) \<or> truthy (cs_fileUrl essayText)"
          "cs_integrityConfirmed essayText"
    by (simp_all add: essayText_def)
  have a: "map_of (db_assignments (world (essay allow 3) [] [] [])) ''a1'' = Some (essay allow 3)"
          "a_status (essay allow 3) = ''published''"
          "a_dueDate (essay allow 3) = Some msPerDay"
          "a_allowLateSubmission (essay allow 3) = allow"
    for allow
    by (simp_all add: world_def essay_def)
  have none: "existingSubmission ''a1'' (u_uid student) (world (essay allow 3) [] [] []) = None"
    for allow
    by (simp add: existingSubmission_def world_def)
  have endOfDay: "setHoursEnd (fixedOffset 0) msPerDay = 2 * msPerDay - 1"
    by (simp add: setHoursEnd_def localDay_def fixedOffset_def msPerDay_def)
  have clock: "e_tz ?late = fixedOffset 0" "e_now ?late = 2 * msPerDay"
              "e_tz ?atEnd = fixedOffset 0" "e_now ?atEnd = 2 * msPerDay - 1"
    by (simp_all add: exampleEnv_def)
  note refused =
    late_submission_handling [OF s d a(1) [of False] a(2) [of False] a(3) [of False], of ?late]
  note late =
    late_submission_handling [OF s d a(1) [of True] a(2) [of True] a(3) [of True], of ?late]
  note onTime =
    late_submission_handling [OF s d a(1) [of True] a(2) [of True] a(3) [of True], of ?atEnd]
  have r1: "createSubmission ?late student essayText (world (essay False 3) [] [] [])
       = (Failure 400 ''Late submissions are not allowed for this assignment'',
          world (essay False 3) [] [] [])"
    using refused unfolding Let_def clock endOfDay a(4) by simp
  have r2: "succeeds (fst (createSubmission ?late student essayText (world (essay True 3) [] [] [])))
       \<and> map_option s_status
           (replyData (fst (createSubmission ?late student essayText
                              (world (essay True 3) [] [] []))))
          = Some ''late''"
    using late unfolding Let_def clock endOfDay a(4) none by auto
  have r3: "map_option s_status
           (replyData (fst (createSubmission ?atEnd student essayText
                              (world (essay True 3) [] [] []))))
          = Some ''submitted''"
    using onTime unfolding Let_def clock endOfDay a(4) none by auto
  from s a(3) endOfDay r1 r2 r3 show ?thesis by blast
qed

text \<open>
  Claim C3, as the code has it. The submission of a student to a published assignment is
  looked up by the pair of assignment and student: the first document of the submissions
  collection that carries both. When no document carries both, one is created with
  \<open>currentAttempt = 1\<close> and an attempt history of the one attempt number 1. When there is
  one and its \<open>currentAttempt\<close> has reached \<open>maxAttempts\<close>, the request fails with status
  400 and the message \<open>Maximum attempts (n) reached\<close>, and the store is left as it was.
  Otherwise the attempt \<open>currentAttempt + 1\<close> is appended to the history, \<open>currentAttempt\<close>
  is incremented, and the content fields the request supplies replace the current ones (a
  field the request leaves out keeps its value). \<open>maxAttempts\<close> is whatever number the
  teacher's request gave: after a re-submission \<open>currentAttempt\<close> is at most
  \<open>maxAttempts\<close> when \<open>maxAttempts\<close> is a whole number, and after a first submission it
  is so when \<open>maxAttempts\<close> is at least 1. Document identifiers are taken to be unique in
  the store.
\<close>

theorem submission_attempts:
  assumes "u_role user = ''student''"
      and "cs_assignmentId data = Some aid" "aid \<noteq> []"
      and "truthy (cs_textContent data) \<or> truthy (cs_fileUrl data)"
      and "cs_integrityConfirmed data"
      and "map_of (db_assignments db) aid = Some a"
      and "a_status a = ''published''"
      and "\<not> (isOverdue env (a_dueDate a) \<and> \<not> a_allowLateSubmission a)"
      and "distinct (map fst (db_submissions db))"
  shows "((\<forall>(docId, s)\<in>set (db_submissions db).
             \<not> (s_assignmentId s = aid \<and> s_studentId s = u_uid user))
          \<longrightarrow> (\<exists>created.
                 createSubmission env user data db =
                   (Success 201 (Some created) (Some ''Submission created successfully''),
                    db\<lparr>db_submissions :=
                         AList.update (e_newId env) created (db_submissions db)\<rparr>)
                 \<and> s_assignmentId created = aid \<and> s_studentId created = u_uid user
                 \<and> s_currentAttempt created = 1
                 \<and> map at_attemptNumber (s_attemptHistory created) = [1]
                 \<and> s_textContent created = spreadIf (cs_textContent data)
                 \<and> s_fileUrl created = spreadIf (cs_fileUrl data)
                 \<and> (1 \<le> a_maxAttempts a
                      \<longrightarrow> of_int (s_currentAttempt created) \<le> a_maxAttempts a)))
         \<and> (db_submissions db = earlier @ (eid, ex) # later
              \<and> (\<forall>(docId, s)\<in>set earlier.
                     \<not> (s_assignmentId s = aid \<and> s_studentId s = u_uid user))
              \<and> s_assignmentId ex = aid \<and> s_studentId ex = u_uid user
            \<longrightarrow> map_of (db_submissions db) eid = Some ex
                \<and> (if a_maxAttempts a \<le> of_int (s_currentAttempt ex)
                    then createSubmission env user data db =
                           (Failure 400
                              (''Maximum attempts ('' @ numberToString env (a_maxAttempts a)
                                 @ '') reached''), db)
                    else (\<exists>updated attempt.
                            createSubmission env user data db =
                              (Success 200 (Some (updated\<lparr>s_id := eid\<rparr>))
                                 (Some ''Submission updated successfully''),
                               db\<lparr>db_submissions :=
                                    AList.map_entry eid (\<lambda>stored. updated) (db_submissions db)\<rparr>)
                            \<and> s_currentAttempt updated = s_currentAttempt ex + 1
                            \<and> (wholeNumber (a_maxAttempts a)
                                 \<longrightarrow> of_int (s_currentAttempt updated) \<le> a_maxAttempts a)
                            \<and> s_attemptHistory updated = s_attemptHistory ex @ [attempt]
                            \<and> at_attemptNumber attempt = s_currentAttempt ex + 1
                            \<and> at_textContent attempt = spreadIf (cs_textContent data)
                            \<and> at_fileUrl attempt = spreadIf (cs_fileUrl data)
                            \<and> s_textContent updated =
                                (if truthy (cs_textContent data) then cs_textContent data
                                 else s_textContent ex)
                            \<and> s_fileUrl updated =
                                (if truthy (cs_fileUrl data) then cs_fileUrl data
                                 else s_fileUrl ex)
                            \<and> s_assignmentId updated = aid
                            \<and> s_studentId updated = u_uid user)))"
proof (intro conjI impI)
  assume none: "\<forall>(docId, s)\<in>set (db_submissions db).
                  \<not> (s_assignmentId s = aid \<and> s_studentId s = u_uid user)"
  have absent: "existingSubmission aid (u_uid user) db = None"
    by (rule existingSubmission_none [OF none])
  let ?new = "newSubmissionDoc env user data (isOverdue env (a_dueDate a))"
  have "createSubmission env user data db =
          (Success 201 (Some ?new) (Some ''Submission created successfully''),
           db\<lparr>db_submissions := AList.update (e_newId env) ?new (db_submissions db)\<rparr>)"
    by (rule createSubmission_first [OF assms(1-8) absent])
  moreover have "s_assignmentId ?new = aid" "s_studentId ?new = u_uid user"
    "s_currentAttempt ?new = 1" "map at_attemptNumber (s_attemptHistory ?new) = [1]"
    "s_textContent ?new = spreadIf (cs_textContent data)"
    "s_fileUrl ?new = spreadIf (cs_fileUrl data)"
    using assms(2) by (simp_all add: newSubmissionDoc_def Let_def)
  ultimately show "\<exists>created.
                 createSubmission env user data db =
                   (Success 201 (Some created) (Some ''Submission created successfully''),
                    db\<lparr>db_submissions :=
                         AList.update (e_newId env) created (db_submissions db)\<rparr>)
                 \<and> s_assignmentId created = aid \<and> s_studentId created = u_uid user
                 \<and> s_currentAttempt created = 1
                 \<and> map at_attemptNumber (s_attemptHistory created) = [1]
                 \<and> s_textContent created = spreadIf (cs_textContent data)
                 \<and> s_fileUrl created = spreadIf (cs_fileUrl data)
                 \<and> (1 \<le> a_maxAttempts a
                      \<longrightarrow> of_int (s_currentAttempt created) \<le> a_maxAttempts a)"
    by (intro exI [of _ ?new]) simp
next
  assume found: "db_submissions db = earlier @ (eid, ex) # later
              \<and> (\<forall>(docId, s)\<in>set earlier.
                     \<not> (s_assignmentId s = aid \<and> s_studentId s = u_uid user))
              \<and> s_assignmentId ex = aid \<and> s_studentId ex = u_uid user"
  then have keys: "s_assignmentId ex = aid" "s_studentId ex = u_uid user" by simp_all
  have ex: "existingSubmission aid (u_uid user) db = Some (eid, ex)"
    using found by (intro existingSubmission_first [of db earlier eid ex later]) simp_all
  show stored: "map_of (db_submissions db) eid = Some ex"
    by (rule existingSubmission_distinct [OF ex assms(9)])
  show "if a_maxAttempts a \<le> of_int (s_currentAttempt ex)
        then createSubmission env user data db =
               (Failure 400
                  (''Maximum attempts ('' @ numberToString env (a_maxAttempts a)
                     @ '') reached''), db)
        else (\<exists>updated attempt.
                createSubmission env user data db =
                  (Success 200 (Some (updated\<lparr>s_id := eid\<rparr>))
                     (Some ''Submission updated successfully''),
                   db\<lparr>db_submissions :=
                        AList.map_entry eid (\<lambda>stored. updated) (db_submissions db)\<rparr>)
                \<and> s_currentAttempt updated = s_currentAttempt ex + 1
                \<and> (wholeNumber (a_maxAttempts a)
                     \<longrightarrow> of_int (s_currentAttempt updated) \<le> a_maxAttempts a)
                \<and> s_attemptHistory updated = s_attemptHistory ex @ [attempt]
                \<and> at_attemptNumber attempt = s_currentAttempt ex + 1
                \<and> at_textContent attempt = spreadIf (cs_textContent data)
                \<and> at_fileUrl attempt = spreadIf (cs_fileUrl data)
                \<and> s_textContent updated =
                    (if truthy (cs_textContent data) then cs_textContent data
                     else s_textContent ex)
                \<and> s_fileUrl updated =
                    (if truthy (cs_fileUrl data) then cs_fileUrl data
                     else s_fileUrl ex)
                \<and> s_assignmentId updated = aid
                \<and> s_studentId updated = u_uid user)"
  proof (cases "a_maxAttempts a \<le> of_int (s_currentAttempt ex)")
    case True
    have "createSubmission env user data db =
            (Failure 400
               (''Maximum attempts ('' @ numberToString env (a_maxAttempts a) @ '') reached''),
             db)"
      by (rule createSubmission_exhausted [OF assms(1-8) ex True])
    then show ?thesis using True by simp
  next
    case False
    then have less: "of_int (s_currentAttempt ex) < a_maxAttempts a" by simp
    let ?f = "submissionUpdateData (e_now env) (isOverdue env (a_dueDate a)) data ex"
    let ?attempt = "\<lparr>at_attemptNumber = s_currentAttempt ex + 1,
                     at_submittedAt = e_now env,
                     at_fileUrl = spreadIf (cs_fileUrl data),
                     at_textContent = spreadIf (cs_textContent data)\<rparr>"
    have same: "AList.map_entry eid ?f (db_submissions db)
                  = AList.map_entry eid (\<lambda>stored. ?f ex) (db_submissions db)"
      by (rule map_entry_stored [OF stored]) simp
    have r: "createSubmission env user data db =
               (Success 200 (Some ((?f ex)\<lparr>s_id := eid\<rparr>))
                  (Some ''Submission updated successfully''),
                db\<lparr>db_submissions :=
                     AList.map_entry eid (\<lambda>stored. ?f ex) (db_submissions db)\<rparr>)"
      using createSubmission_again [OF assms(1-8) ex less stored] same by simp
    have fields:
      "s_currentAttempt (?f ex) = s_currentAttempt ex + 1"
      "s_attemptHistory (?f ex) = s_attemptHistory ex @ [?attempt]"
      "s_textContent (?f ex) =
         (if truthy (cs_textContent data) then cs_textContent data else s_textContent ex)"
      "s_fileUrl (?f ex) = (if truthy (cs_fileUrl data) then cs_fileUrl data else s_fileUrl ex)"
      "s_assignmentId (?f ex) = aid" "s_studentId (?f ex) = u_uid user"
      using keys by (simp_all add: submissionUpdateData_def Let_def)
    have bound: "of_int (s_currentAttempt ex + 1) \<le> a_maxAttempts a"
      if whole: "wholeNumber (a_maxAttempts a)"
    proof -
      obtain m where m: "a_maxAttempts a = of_int m"
        using whole unfolding wholeNumber_iff by blast
      have "s_currentAttempt ex < m" using less unfolding m by simp
      then have "s_currentAttempt ex + 1 \<le> m" by simp
      then show ?thesis unfolding m by (simp only: of_int_le_iff)
    qed
    have "\<exists>updated attempt.
            createSubmission env user data db =
              (Success 200 (Some (updated\<lparr>s_id := eid\<rparr>))
                 (Some ''Submission updated successfully''),
               db\<lparr>db_submissions :=
                    AList.map_entry eid (\<lambda>stored. updated) (db_submissions db)\<rparr>)
            \<and> s_currentAttempt updated = s_currentAttempt ex + 1
            \<and> (wholeNumber (a_maxAttempts a)
                 \<longrightarrow> of_int (s_currentAttempt updated) \<le> a_maxAttempts a)
            \<and> s_attemptHistory updated = s_attemptHistory ex @ [attempt]
            \<and> at_attemptNumber attempt = s_currentAttempt ex + 1
            \<and> at_textContent attempt = spreadIf (cs_textContent data)
            \<and> at_fileUrl attempt = spreadIf (cs_fileUrl data)
            \<and> s_textContent updated =
                (if truthy (cs_textContent data) then cs_textContent data
                 else s_textContent ex)
            \<and> s_fileUrl updated =
                (if truthy (cs_fileUrl data) then cs_fileUrl data
                 else s_fileUrl ex)
            \<and> s_assignmentId updated = aid
            \<and> s_studentId updated = u_uid user"
      using r fields bound
      by (intro exI [of _ "?f ex"] exI [of _ ?attempt]) simp
    then show ?thesis
      unfolding if_not_P [OF False] .
  qed
qed

theorem submission_attempts_witness:
  "u_role student = ''student''
   \<and> a_maxAttempts (essay True 3) = 3 \<and> wholeNumber (a_maxAttempts (essay True 3))
   \<and> distinct (map fst [otherStudent, (''sub1'', handedIn 2 None)])
   \<and> s_studentId (snd otherStudent) \<noteq> u_uid student
   \<and> map_option s_currentAttempt
        (replyData (fst (createSubmission (exampleEnv 1000 ''sub9'') student essayText
                           (world (essay True 3) [otherStudent] [] []))))
       = Some 1
   \<and> map_option s_currentAttempt
        (replyData (fst (createSubmission (exampleEnv 1000 ''sub9'') student essayText
                           (world (essay True 3) [otherStudent, (''sub1'', handedIn 2 None)] [] []))))
       = Some 3
   \<and> map_option s_textContent
        (replyData (fst (createSubmission (exampleEnv 1000 ''sub9'') student essayText
                           (world (essay True 3) [otherStudent, (''sub1'', handedIn 2 None)] [] []))))
       = Some (Some ''My essay'')
   \<and> createSubmission (exampleEnv 1000 ''sub9'') student essayText
        (world (essay True 3) [otherStudent, (''sub1'', handedIn 3 None)] [] [])
       = (Failure 400 ''Maximum attempts (3) reached'',
          world (essay True 3) [otherStudent, (''sub1'', handedIn 3 None)] [] [])"
proof -
  let ?env = "exampleEnv 1000 ''sub9''"
  let ?a = "essay True 3"
  have s: "u_role student = ''student''" "u_uid student = ''s1''"
    by (simp_all add: student_def)
  have d: "cs_assignmentId essayText = Some ''a1''" "''a1'' \<noteq> []"
          "truthy (cs_textContent essayText) \<or> truthy (cs_fileUrl essayText)"
          "cs_integrityConfirmed essayText"
    by (simp_all add: essayText_def)
  have words: "cs_textContent essayText = Some ''My essay''"
    by (simp add: essayText_def)
  have a: "map_of (db_assignments (world ?a subs [] [])) ''a1'' = Some ?a"
          "a_status ?a = ''published''"
          "\<not> (isOverdue ?env (a_dueDate ?a) \<and> \<not> a_allowLateSubmission ?a)"
          "a_maxAttempts ?a = 3"
    for subs
    by (simp_all add: world_def essay_def)
  have whole: "wholeNumber (a_maxAttempts ?a)"
    by (simp add: a(4) wholeNumber_def)
  have subs: "db_submissions (world ?a subs [] []) = subs" for subs
    by (simp add: world_def)
  have other: "s_studentId (snd otherStudent) \<noteq> u_uid student"
    by (simp add: otherStudent_def student_def)
  have none: "\<forall>(docId, s)\<in>set (db_submissions (world ?a [otherStudent] [] [])).
                \<not> (s_assignmentId s = ''a1'' \<and> s_studentId s = u_uid student)"
    by (simp add: world_def otherStudent_def student_def)
  have found: "db_submissions (world ?a [otherStudent, (''sub1'', handedIn n None)] [] [])
                 = [otherStudent] @ (''sub1'', handedIn n None) # []
               \<and> (\<forall>(docId, s)\<in>set [otherStudent].
                     \<not> (s_assignmentId s = ''a1'' \<and> s_studentId s = u_uid student))
               \<and> s_assignmentId (handedIn n None) = ''a1''
               \<and> s_studentId (handedIn n None) = u_uid student" for n
    by (simp add: world_def otherStudent_def handedIn_def student_def)
  have dist: "distinct (map fst (db_submissions (world ?a [otherStudent] [] [])))"
             "distinct (map fst (db_submissions
                                   (world ?a [otherStudent, (''sub1'', handedIn n None)] [] [])))"
    for n
    by (simp_all add: world_def otherStudent_def)
  have attempts: "s_currentAttempt (handedIn n None) = n" for n
    by (simp add: handedIn_def)
  have three: "numberToString ?env 3 = ''3''"
  proof -
    have "string_of_int 3 = ''3''" by code_simp
    then show ?thesis by (simp add: numberToString_def wholeNumber_def)
  qed
  note first =
    submission_attempts [OF s(1) d a(1) [of "[otherStudent]"] a(2) a(3) dist(1)]
  note again =
    submission_attempts
      [OF s(1) d a(1) [of "[otherStudent, (''sub1'', handedIn 2 None)]"] a(2) a(3) dist(2) [of 2],
       where earlier = "[otherStudent]" and eid = "''sub1''" and ex = "handedIn 2 None"
         and later = "[]"]
  note exhausted =
    submission_attempts
      [OF s(1) d a(1) [of "[otherStudent, (''sub1'', handedIn 3 None)]"] a(2) a(3) dist(2) [of 3],
       where earlier = "[otherStudent]" and eid = "''sub1''" and ex = "handedIn 3 None"
         and later = "[]"]
  have r1: "map_option s_currentAttempt
        (replyData (fst (createSubmission ?env student essayText
                           (world ?a [otherStudent] [] []))))
       = Some 1"
  proof -
    from mp [OF conjunct1 [OF first] none]
    obtain created where
      "createSubmission ?env student essayText (world ?a [otherStudent] [] []) =
         (Success 201 (Some created) (Some ''Submission created successfully''),
          (world ?a [otherStudent] [] [])
            \<lparr>db_submissions :=
               AList.update (e_newId ?env) created
                 (db_submissions (world ?a [otherStudent] [] []))\<rparr>)"
      "s_currentAttempt created = 1"
      by blast
    then show ?thesis by simp
  qed
  have r2: "map_option s_currentAttempt
        (replyData (fst (createSubmission ?env student essayText
                           (world ?a [otherStudent, (''sub1'', handedIn 2 None)] [] []))))
       = Some 3
     \<and> map_option s_textContent
        (replyData (fst (createSubmission ?env student essayText
                           (world ?a [otherStudent, (''sub1'', handedIn 2 None)] [] []))))
       = Some (Some ''My essay'')"
  proof -
    have left: "\<not> a_maxAttempts ?a \<le> of_int (s_currentAttempt (handedIn 2 None))"
      by (simp add: a(4) attempts)
    from conjunct2 [OF mp [OF conjunct2 [OF again] found [of 2]]]
    obtain updated where
      "createSubmission ?env student essayText
         (world ?a [otherStudent, (''sub1'', handedIn 2 None)] [] []) =
         (Success 200 (Some (updated\<lparr>s_id := ''sub1''\<rparr>))
            (Some ''Submission updated successfully''),
          (world ?a [otherStudent, (''sub1'', handedIn 2 None)] [] [])
            \<lparr>db_submissions :=
               AList.map_entry ''sub1'' (\<lambda>stored. updated)
                 (db_submissions (world ?a [otherStudent, (''sub1'', handedIn 2 None)] [] []))\<rparr>)"
      "s_currentAttempt updated = s_currentAttempt (handedIn 2 None) + 1"
      "s_textContent updated =
         (if truthy (cs_textContent essayText) then cs_textContent essayText
          else s_textContent (handedIn 2 None))"
      unfolding if_not_P [OF left] by blast
    then show ?thesis by (simp add: attempts words)
  qed
  have r3: "createSubmission ?env student essayText
        (world ?a [otherStudent, (''sub1'', handedIn 3 None)] [] [])
       = (Failure 400 ''Maximum attempts (3) reached'',
          world ?a [otherStudent, (''sub1'', handedIn 3 None)] [] [])"
  proof -
    have reached: "3 \<le> (of_int (s_currentAttempt (handedIn 3 None)) :: rat)"
      by (simp add: attempts)
    from conjunct2 [OF mp [OF conjunct2 [OF exhausted] found [of 3]]] reached
    show ?thesis unfolding a(4) three by simp
  qed
  have dist': "distinct (map fst [otherStudent, (''sub1'', handedIn 2 None)])"
    by (simp add: otherStudent_def)
  from s(1) a(4) whole dist' other r1 r2 r3 show ?thesis by blast
qed

text \<open>
  Claim C3 as the specification words it fails on these instances. An assignment created
  with \<open>maxAttempts: 0\<close>, which the server accepts, takes a first submission, whose
  \<open>currentAttempt\<close> is then 1. An assignment with \<open>maxAttempts: 2.5\<close> takes a third
  attempt. A re-submission that carries a file and no text leaves the text of the earlier
  attempt as the current text.
\<close>

theorem attempts_and_content_counterexample:
  "map_option a_maxAttempts (map_of (db_assignments zeroAttemptsDb) ''a1'') = Some 0
   \<and> map_option a_status (map_of (db_assignments zeroAttemptsDb) ''a1'') = Some ''published''
   \<and> succeeds (fst (createSubmission (exampleEnv 1000 ''sub1'') student essayText zeroAttemptsDb))
   \<and> map_option s_currentAttempt
        (replyData (fst (createSubmission (exampleEnv 1000 ''sub1'') student essayText
                           zeroAttemptsDb)))
       = Some 1
   \<and> map_option s_currentAttempt
        (map_of (db_submissions
                   (snd (createSubmission (exampleEnv 1000 ''sub1'') student essayText
                           zeroAttemptsDb)))
           ''sub1'')
       = Some 1
   \<and> a_maxAttempts (essay True (5 / 2)) = 5 / 2
   \<and> s_currentAttempt (handedIn 2 None) = 2
   \<and> map_option s_currentAttempt
        (map_of (db_submissions
                   (snd (createSubmission (exampleEnv 1000 ''sub9'') student essayText
                           (world (essay True (5 / 2)) [(''sub1'', handedIn 2 None)] [] []))))
           ''sub1'')
       = Some 3
   \<and> s_textContent (handedIn 1 None) = Some ''Draft''
   \<and> cs_textContent essayFile = None
   \<and> succeeds (fst (createSubmission (exampleEnv 1000 ''sub9'') student essayFile
                       (world (essay True 3) [(''sub1'', handedIn 1 None)] [] [])))
   \<and> map_option s_textContent
        (map_of (db_submissions
                   (snd (createSubmission (exampleEnv 1000 ''sub9'') student essayFile
                           (world (essay True 3) [(''sub1'', handedIn 1 None)] [] []))))
           ''sub1'')
       = Some (Some ''Draft'')
   \<and> map_option s_fileUrl
        (map_of (db_submissions
                   (snd (createSubmission (exampleEnv 1000 ''sub9'') student essayFile
                           (world (essay True 3) [(''sub1'', handedIn 1 None)] [] []))))
           ''sub1'')
       = Some (Some ''essay.pdf'')"
proof -
  have pre: "u_role teacher = ''teacher''"
    "truthy (ca_title (essayRequest (Some 0)))" "truthy (ca_description (essayRequest (Some 0)))"
    "truthy (ca_difficulty (essayRequest (Some 0)))"
    "ca_dueDate (essayRequest (Some 0)) = Some (Some (10 * msPerDay))"
    by (simp_all add: teacher_def essayRequest_def)
  let ?a = "newAssignmentDoc (exampleEnv 0 ''a1'') teacher (essayRequest (Some 0))
              (Some (10 * msPerDay))"
  have db: "zeroAttemptsDb = emptyDb\<lparr>db_assignments := [(''a1'', ?a)]\<rparr>"
    unfolding zeroAttemptsDb_def createAssignment_accepted [OF pre]
    by (simp add: emptyDb_def exampleEnv_def)
  have a: "map_of (db_assignments zeroAttemptsDb) ''a1'' = Some ?a"
          "a_maxAttempts ?a = 0" "a_status ?a = ''published''" "a_allowLateSubmission ?a"
    by (simp_all add: db newAssignmentDoc_def essayRequest_def Let_def)
  have s: "u_role student = ''student''" by (simp add: student_def)
  have d: "cs_assignmentId essayText = Some ''a1''" "''a1'' \<noteq> []"
          "truthy (cs_textContent essayText) \<or> truthy (cs_fileUrl essayText)"
          "cs_integrityConfirmed essayText"
    by (simp_all add: essayText_def)
  have f: "cs_assignmentId essayFile = Some ''a1''"
          "truthy (cs_textContent essayFile) \<or> truthy (cs_fileUrl essayFile)"
          "cs_integrityConfirmed essayFile"
    by (simp_all add: essayFile_def)
  have none: "existingSubmission ''a1'' (u_uid student) zeroAttemptsDb = None"
    by (simp add: existingSubmission_def db emptyDb_def)
  have allowed: "\<not> (isOverdue (exampleEnv 1000 ''sub1'') (a_dueDate ?a)
                      \<and> \<not> a_allowLateSubmission ?a)"
    using a(4) by simp
  note zero = createSubmission_first [OF s d a(1) a(3) allowed none]
  have first: "succeeds (fst (createSubmission (exampleEnv 1000 ''sub1'') student essayText
                               zeroAttemptsDb))"
    "map_option s_currentAttempt
        (replyData (fst (createSubmission (exampleEnv 1000 ''sub1'') student essayText
                           zeroAttemptsDb)))
       = Some 1"
    "map_option s_currentAttempt
        (map_of (db_submissions
                   (snd (createSubmission (exampleEnv 1000 ''sub1'') student essayText
                           zeroAttemptsDb)))
           ''sub1'')
       = Some 1"
    unfolding zero
    by (simp_all add: newSubmissionDoc_def update_conv' exampleEnv_def Let_def)
  let ?env = "exampleEnv 1000 ''sub9''"
  have w: "map_of (db_assignments (world (essay True m) [(''sub1'', handedIn n None)] [] [])) ''a1''
             = Some (essay True m)"
          "a_status (essay True m) = ''published''"
          "\<not> (isOverdue ?env (a_dueDate (essay True m)) \<and> \<not> a_allowLateSubmission (essay True m))"
          "a_maxAttempts (essay True m) = m"
          "existingSubmission ''a1'' (u_uid student)
             (world (essay True m) [(''sub1'', handedIn n None)] [] [])
             = Some (''sub1'', handedIn n None)"
          "map_of (db_submissions (world (essay True m) [(''sub1'', handedIn n None)] [] [])) ''sub1''
             = Some (handedIn n None)"
    for m n
    by (simp_all add: world_def essay_def existingSubmission_def handedIn_def student_def)
  have left: "of_int (s_currentAttempt (handedIn 2 None)) < a_maxAttempts (essay True (5 / 2))"
             "of_int (s_currentAttempt (handedIn 1 None)) < a_maxAttempts (essay True 3)"
    by (simp_all add: handedIn_def essay_def)
  note third =
    createSubmission_again [OF s d w(1) w(2) w(3) w(5) left(1) w(6)]
  note fileOnly =
    createSubmission_again [OF s f(1) d(2) f(2,3) w(1) w(2) w(3) w(5) left(2) w(6)]
  have fractional:
    "map_option s_currentAttempt
        (map_of (db_submissions
                   (snd (createSubmission ?env student essayText
                           (world (essay True (5 / 2)) [(''sub1'', handedIn 2 None)] [] []))))
           ''sub1'')
       = Some 3"
    unfolding third
    by (simp add: world_def submissionUpdateData_def handedIn_def Let_def)
  have kept:
    "succeeds (fst (createSubmission ?env student essayFile
                       (world (essay True 3) [(''sub1'', handedIn 1 None)] [] [])))"
    "map_option s_textContent
        (map_of (db_submissions
                   (snd (createSubmission ?env student essayFile
                           (world (essay True 3) [(''sub1'', handedIn 1 None)] [] []))))
           ''sub1'')
       = Some (Some ''Draft'')"
    "map_option s_fileUrl
        (map_of (db_submissions
                   (snd (createSubmission ?env student essayFile
                           (world (essay True 3) [(''sub1'', handedIn 1 None)] [] []))))
           ''sub1'')
       = Some (Some ''essay.pdf'')"
    unfolding fileOnly
    by (simp_all add: world_def submissionUpdateData_def handedIn_def essayFile_def Let_def)
  have facts: "a_maxAttempts (essay True (5 / 2)) = 5 / 2"
              "s_currentAttempt (handedIn 2 None) = 2"
              "s_textContent (handedIn 1 None) = Some ''Draft''"
              "cs_textContent essayFile = None"
    by (simp_all add: essay_def handedIn_def essayFile_def)
  show ?thesis
    using a(1,2,3) first fractional kept facts by simp
qed

end
